theory Spec2Isabelle
  imports Main
begin

section \<open>The TypeScript compiler objects the plugin talks to\<close>

text \<open>
  The plugin of \<^verbatim>\<open>src/index.ts\<close> drives the TypeScript compiler through a handful of
  queries on \<^verbatim>\<open>ts.Program\<close> and \<^verbatim>\<open>ts.SourceFile\<close>. A program is immutable once
  created, so it is a record of the answers to exactly those queries:
  \<^verbatim>\<open>getRootFileNames()\<close>, \<^verbatim>\<open>getSourceFile(fileName)\<close> (\<open>None\<close> is \<^verbatim>\<open>undefined\<close>),
  \<^verbatim>\<open>isSourceFileFromExternalLibrary(sourceFile)\<close>, \<^verbatim>\<open>getSourceFiles()\<close> and
  \<^verbatim>\<open>emit(sourceFile, writeFile, ...)\<close>.
\<close>

record source_file =
  fileName :: string
  getFullText :: string

datatype diagnostic_category = CatWarning | CatError | CatSuggestion | CatMessage

record diagnostic =
  category :: diagnostic_category
  messageText :: string

text \<open>
  What one call of \<^verbatim>\<open>program.emit\<close> does: the \<^verbatim>\<open>emitSkipped\<close> flag and the
  \<^verbatim>\<open>diagnostics\<close> it returns, and the declaration texts it hands to the
  \<^verbatim>\<open>writeFile\<close> callback, in the order of the calls.
\<close>

record emit_result =
  emitSkipped :: bool
  diagnostics :: "diagnostic list"
  written :: "string list"

record program =
  getRootFileNames :: "string list"
  getSourceFile :: "string \<Rightarrow> source_file option"
  isSourceFileFromExternalLibrary :: "source_file \<Rightarrow> bool"
  getSourceFiles :: "source_file list"
  emit :: "source_file \<Rightarrow> emit_result"

text \<open>\<^verbatim>\<open>resolvedModule\<close> of \<^verbatim>\<open>ts.resolveModuleName\<close>; an absent
  \<^verbatim>\<open>isExternalLibraryImport\<close> is falsy, an absent \<^verbatim>\<open>packageId\<close> is \<open>None\<close>.\<close>

record resolved_module =
  resolvedFileName :: string
  isExternalLibraryImport :: bool
  packageId_name :: "string option"

section \<open>The plugin's data\<close>

type_synonym compiler_options = "(string \<times> string) list"

record ResolvedOptions =
  respectExternal :: bool
  includeExternal :: "string list"
  compilerOptions :: compiler_options
  tsconfig :: "string option"

record DtsPluginContext =
  entries :: "string list"
  programs :: "program list"
  resolvedOptions :: ResolvedOptions

text \<open>\<^verbatim>\<open>interface ResolvedModule\<close>: \<^verbatim>\<open>code\<close> is \<open>None\<close> when
  \<^verbatim>\<open>source?.getFullText()\<close> is \<^verbatim>\<open>undefined\<close>.\<close>

record ResolvedModule =
  code :: "string option"
  source :: "source_file option"
  program :: "program option"

text \<open>The module-level counters of lines 37-41, updated by every call of
  \<^verbatim>\<open>getModule\<close>.\<close>

record resolution_counters =
  moduleResolutionStack :: "string list"
  moduleResolutionCount :: "string \<Rightarrow> nat option"
  filesProcessed :: "string set"
  totalGetModuleCalls :: nat

record plugin_state =
  ctx :: DtsPluginContext
  counters :: resolution_counters

text \<open>
  Everything the plugin imports from files that are not part of the verified source
  (\<^verbatim>\<open>helpers.js\<close>, \<^verbatim>\<open>program.js\<close>, \<^verbatim>\<open>transform/index.js\<close>), from
  \<^verbatim>\<open>node:path\<close> and from \<^verbatim>\<open>typescript\<close> is a parameter: a field of the record
  \<open>host\<close>. \<open>'r\<close> is the type of the inner transform plugin's results; \<open>None\<close> is a
  nullish result (\<^verbatim>\<open>null\<close> or \<^verbatim>\<open>undefined\<close>). All of them are functions: they do
  not throw and answer the same question the same way during a session.
\<close>

record 'r host =
  DTS_EXTENSIONS_test :: "string \<Rightarrow> bool"
  JSON_EXTENSIONS_test :: "string \<Rightarrow> bool"
  getDeclarationId :: "string \<Rightarrow> string"
  fileExists :: "string \<Rightarrow> bool"
  createProgram :: "string \<Rightarrow> compiler_options \<Rightarrow> string option \<Rightarrow> program"
  transformPlugin_transform :: "string option \<Rightarrow> string \<Rightarrow> 'r option"
  formatDiagnostics :: "diagnostic list \<Rightarrow> string"
  path_dirname :: "string \<Rightarrow> string"
  path_resolve :: "string list \<Rightarrow> string"
  getCompilerOptions :: "string \<Rightarrow> compiler_options \<Rightarrow> string option \<Rightarrow> compiler_options"
  resolveModuleName :: "string \<Rightarrow> string \<Rightarrow> compiler_options \<Rightarrow> resolved_module option"

section \<open>String tests\<close>

definition endsWith :: "string \<Rightarrow> string \<Rightarrow> bool" where
  "endsWith s suf = (length suf \<le> length s \<and> drop (length s - length suf) s = suf)"

definition startsWith :: "string \<Rightarrow> string \<Rightarrow> bool" where
  "startsWith s pre = (take (length pre) s = pre)"

text \<open>\<^verbatim>\<open>const TS_EXTENSIONS = /\.([cm]ts|[tj]sx?)$/\<close>: the name ends in one of six
  extensions.\<close>

definition TS_EXTENSIONS_test :: "string \<Rightarrow> bool" where
  "TS_EXTENSIONS_test s =
     list_ex (endsWith s) [''.cts'', ''.mts'', ''.ts'', ''.tsx'', ''.js'', ''.jsx'']"

section \<open>The module resolver: getModule\<close>

text \<open>Lines 48-57 and 75: the counters at the start of a call, the file name pushed
  on the stack.\<close>

definition enter :: "resolution_counters \<Rightarrow> string \<Rightarrow> resolution_counters" where
  "enter k fname =
     (let count = (case moduleResolutionCount k fname of None \<Rightarrow> 0 | Some n \<Rightarrow> n) + 1
      in k\<lparr> totalGetModuleCalls := totalGetModuleCalls k + 1,
             moduleResolutionCount := (moduleResolutionCount k)(fname \<mapsto> count),
             filesProcessed := insert fname (filesProcessed k),
             moduleResolutionStack := moduleResolutionStack k @ [fname] \<rparr>)"

text \<open>\<^verbatim>\<open>moduleResolutionStack.pop()\<close>, which every branch runs before it returns.\<close>

definition leave :: "resolution_counters \<Rightarrow> resolution_counters" where
  "leave k = k\<lparr> moduleResolutionStack := butlast (moduleResolutionStack k) \<rparr>"

text \<open>The callback of \<^verbatim>\<open>programs.find\<close> (lines 94-109).\<close>

definition findCallback :: "bool \<Rightarrow> string \<Rightarrow> program \<Rightarrow> bool" where
  "findCallback isEntry fname p =
     (if isEntry then fname \<in> set (getRootFileNames p)
      else (case getSourceFile p fname of
              None \<Rightarrow> False
            | Some sourceFile \<Rightarrow>
                if isSourceFileFromExternalLibrary p sourceFile then False else True))"

text \<open>The callback of \<^verbatim>\<open>programs.some\<close> (lines 129-132).\<close>

definition someCallback :: "string \<Rightarrow> program \<Rightarrow> bool" where
  "someCallback fname p =
     (case getSourceFile p fname of
        None \<Rightarrow> False
      | Some sourceFile \<Rightarrow> isSourceFileFromExternalLibrary p sourceFile)"

text \<open>
  \<^verbatim>\<open>getModule(ctx, fileName, code)\<close>. The result \<open>None\<close> is \<^verbatim>\<open>null\<close>. The array
  \<^verbatim>\<open>ctx.programs\<close> is mutated in place by \<^verbatim>\<open>programs.push\<close>, so the state is
  returned. The logging under \<^verbatim>\<open>process.env.DTS_DEBUG\<close> writes to the console only and
  is left out.
\<close>

definition getModule ::
  "'r host \<Rightarrow> plugin_state \<Rightarrow> string \<Rightarrow> string \<Rightarrow> ResolvedModule option \<times> plugin_state" where
  "getModule h s fname raw =
     (let c = ctx s;
          k = enter (counters s) fname;
          out = s\<lparr> counters := leave k \<rparr>
      in
      if programs c = [] \<and> DTS_EXTENSIONS_test h fname
      then (Some \<lparr> code = Some raw, source = None, program = None \<rparr>, out)
      else
        let isEntry = fname \<in> set (entries c) in
        case find (findCallback isEntry fname) (programs c) of
          Some existingProgram \<Rightarrow>
            let src = getSourceFile existingProgram fname in
            (Some \<lparr> code = map_option getFullText src, source = src,
                     program = Some existingProgram \<rparr>, out)
        | None \<Rightarrow>
            if fileExists h fname then
              if programs c \<noteq> [] \<and> DTS_EXTENSIONS_test h fname
                 \<and> list_ex (someCallback fname) (programs c)
              then (Some \<lparr> code = Some raw, source = None, program = None \<rparr>, out)
              else
                let newProgram =
                      createProgram h fname (compilerOptions (resolvedOptions c))
                        (tsconfig (resolvedOptions c));
                    src = getSourceFile newProgram fname
                in (Some \<lparr> code = map_option getFullText src, source = src,
                            program = Some newProgram \<rparr>,
                    out\<lparr> ctx := c\<lparr> programs := programs c @ [newProgram] \<rparr> \<rparr>)
            else (None, out))"

section \<open>The transform hook\<close>

text \<open>
  How a call of the hook completes: it returns a value (\<open>None\<close> is a nullish value) or
  \<^verbatim>\<open>this.error\<close> throws. Beside that, a call reports watch files through
  \<^verbatim>\<open>this.addWatchFile\<close> and may print to \<^verbatim>\<open>console.error\<close>; both are listed in
  the order of the calls.
\<close>

datatype 'r completion = Return "'r option" | Throw string

record 'r outcome =
  completion :: "'r completion"
  addWatchFile :: "string list"
  console_error :: "string list"

text \<open>\<^verbatim>\<open>return null\<close> with no effect.\<close>

definition returnNull :: "'r outcome" where
  "returnNull = \<lparr> completion = Return None, addWatchFile = [], console_error = [] \<rparr>"

text \<open>The closure \<^verbatim>\<open>watchFiles\<close> (lines 225-234): the files it passes to
  \<^verbatim>\<open>this.addWatchFile\<close>.\<close>

definition watchFiles :: "'r host \<Rightarrow> string \<Rightarrow> ResolvedModule \<Rightarrow> string list" where
  "watchFiles h ident m =
     (case program m of
        None \<Rightarrow> []
      | Some p \<Rightarrow>
          let sourceDirectory = path_dirname h ident
          in filter (\<lambda>fname. startsWith fname sourceDirectory)
               (map fileName (getSourceFiles p)))"

definition handleDtsFile ::
  "'r host \<Rightarrow> plugin_state \<Rightarrow> string \<Rightarrow> string \<Rightarrow> 'r outcome \<times> plugin_state" where
  "handleDtsFile h s raw ident =
     (case getModule h s ident raw of
        (Some m, s') \<Rightarrow>
          (\<lparr> completion = Return (transformPlugin_transform h (code m) ident),
             addWatchFile = watchFiles h ident m, console_error = [] \<rparr>, s')
      | (None, s') \<Rightarrow> (returnNull, s'))"

definition treatTsAsDts ::
  "'r host \<Rightarrow> plugin_state \<Rightarrow> string \<Rightarrow> string \<Rightarrow> 'r outcome \<times> plugin_state" where
  "treatTsAsDts h s raw ident =
     (let declarationId = getDeclarationId h ident in
      case getModule h s declarationId raw of
        (Some m, s') \<Rightarrow>
          (\<lparr> completion = Return (transformPlugin_transform h (code m) declarationId),
             addWatchFile = watchFiles h ident m, console_error = [] \<rparr>, s')
      | (None, s') \<Rightarrow> (returnNull, s'))"

text \<open>
  \<^verbatim>\<open>generateDts\<close> (lines 255-282). The callback given to \<^verbatim>\<open>emit\<close> overwrites
  \<^verbatim>\<open>generated\<close> on every call, so \<^verbatim>\<open>generated\<close> is the inner transform of the last
  text written, and stays \<^verbatim>\<open>undefined\<close> when nothing was written.
\<close>

definition generateDts ::
  "'r host \<Rightarrow> plugin_state \<Rightarrow> string \<Rightarrow> string \<Rightarrow> 'r outcome \<times> plugin_state" where
  "generateDts h s raw ident =
     (case getModule h s ident raw of
        (None, s') \<Rightarrow> (returnNull, s')
      | (Some m, s') \<Rightarrow>
          (case (source m, program m) of
             (Some src, Some p) \<Rightarrow>
               let watched = watchFiles h ident m;
                   declarationId = getDeclarationId h ident;
                   r = emit p src;
                   generated =
                     (case written r of
                        [] \<Rightarrow> None
                      | _ \<Rightarrow> transformPlugin_transform h (Some (last (written r))) declarationId);
                   errors = filter (\<lambda>diag. category diag = CatError) (diagnostics r)
               in if emitSkipped r \<and> errors \<noteq> []
                  then (\<lparr> completion = Throw ''Failed to compile. Check the logs above.'',
                          addWatchFile = watched,
                          console_error = [formatDiagnostics h errors] \<rparr>, s')
                  else (\<lparr> completion = Return generated, addWatchFile = watched,
                          console_error = [] \<rparr>, s')
           | _ \<Rightarrow> (returnNull, s')))"

text \<open>
  \<^verbatim>\<open>transform(code, id)\<close> (lines 211-326). In the last branch
  \<^verbatim>\<open>treated ?? generateDts()\<close> runs \<^verbatim>\<open>generateDts\<close> when \<^verbatim>\<open>treated\<close> is
  nullish; the effects of both closures are those of the call.
\<close>

definition transform ::
  "'r host \<Rightarrow> plugin_state \<Rightarrow> string \<Rightarrow> string \<Rightarrow> 'r outcome \<times> plugin_state" where
  "transform h s raw ident =
     (if \<not> TS_EXTENSIONS_test ident \<and> \<not> JSON_EXTENSIONS_test h ident then (returnNull, s)
      else if DTS_EXTENSIONS_test h ident then handleDtsFile h s raw ident
      else if JSON_EXTENSIONS_test h ident then generateDts h s raw ident
      else
        (case treatTsAsDts h s raw ident of
           (treated, s1) \<Rightarrow>
             (case completion treated of
                Return None \<Rightarrow>
                  (case generateDts h s1 raw ident of
                     (generated, s2) \<Rightarrow>
                       (generated\<lparr> addWatchFile := addWatchFile treated @ addWatchFile generated,
                                   console_error :=
                                     console_error treated @ console_error generated \<rparr>, s2))
              | _ \<Rightarrow> (treated, s1))))"

section \<open>The import classifier: resolveId\<close>

text \<open>What the hook returns: nothing (\<^verbatim>\<open>undefined\<close>, the host resolves the import
  itself), \<^verbatim>\<open>{ id }\<close>, or \<^verbatim>\<open>{ id, external: true }\<close>.\<close>

datatype resolve_result = Unresolved | ResolvedId string | ExternalId string

text \<open>
  \<^verbatim>\<open>resolveId(source, importer)\<close> (lines 328-371). \<^verbatim>\<open>!importer\<close> holds for an absent
  and for an empty importer; \<^verbatim>\<open>importer.split("\\").join("/")\<close> turns every backslash
  into a slash.
\<close>

definition slashes :: "string \<Rightarrow> string" where
  "slashes importer = map (\<lambda>ch. if ch = CHR 0x5C then CHR ''/'' else ch) importer"

text \<open>Lines 338-352: the compiler options the import is resolved with. The test
  \<^verbatim>\<open>if (ctx.resolvedOptions.tsconfig)\<close> fails for an absent and for an empty path.\<close>

definition resolvedCompilerOptions ::
  "'r host \<Rightarrow> ResolvedOptions \<Rightarrow> string \<Rightarrow> string \<Rightarrow> compiler_options" where
  "resolvedCompilerOptions h opts src importer =
     (if tsconfig opts = None \<or> tsconfig opts = Some [] then compilerOptions opts
      else
        let resolvedSource =
              (if startsWith src ''.''
               then path_resolve h [path_dirname h importer, src] else src)
        in getCompilerOptions h resolvedSource (compilerOptions opts) (tsconfig opts))"

definition resolveId ::
  "'r host \<Rightarrow> plugin_state \<Rightarrow> string \<Rightarrow> string option \<Rightarrow> resolve_result \<times> plugin_state" where
  "resolveId h s src importer =
     (case (if importer = Some [] then None else importer) of
        None \<Rightarrow>
          (Unresolved,
           s\<lparr> ctx := (ctx s)\<lparr> entries := entries (ctx s) @ [path_resolve h [src]] \<rparr> \<rparr>)
      | Some importer0 \<Rightarrow>
          let importer' = slashes importer0;
              opts = resolvedOptions (ctx s)
          in
          (case resolveModuleName h src importer'
                  (resolvedCompilerOptions h opts src importer') of
             None \<Rightarrow> (Unresolved, s)
           | Some resolvedModule \<Rightarrow>
               if isExternalLibraryImport resolvedModule
                  \<and> (case packageId_name resolvedModule of
                        None \<Rightarrow> False
                      | Some name \<Rightarrow> name \<in> set (includeExternal opts))
               then (ResolvedId (path_resolve h [resolvedFileName resolvedModule]), s)
               else if \<not> respectExternal opts \<and> isExternalLibraryImport resolvedModule
               then (ExternalId src, s)
               else (ResolvedId (path_resolve h [resolvedFileName resolvedModule]), s)))"

section \<open>Requests in sequence\<close>

text \<open>
  The host calls the hooks one at a time. A run of resolution requests, each a file
  name with the raw text, threads the state through \<open>getModule\<close>; a run of transform
  requests, each the raw text with the file name, threads it through \<open>transform\<close>.
\<close>

fun resolveAll :: "'r host \<Rightarrow> plugin_state \<Rightarrow> (string \<times> string) list \<Rightarrow> plugin_state" where
  "resolveAll h s [] = s"
| "resolveAll h s ((fname, raw) # reqs) = resolveAll h (snd (getModule h s fname raw)) reqs"

text \<open>How many requests for \<open>f\<close> in a run made the pool grow, that is reached
  \<^verbatim>\<open>programs.push(newProgram)\<close>.\<close>

fun createdFor :: "'r host \<Rightarrow> plugin_state \<Rightarrow> (string \<times> string) list \<Rightarrow> string \<Rightarrow> nat" where
  "createdFor h s [] f = 0"
| "createdFor h s ((fname, raw) # reqs) f =
     (if fname = f \<and> length (programs (ctx s)) < length (programs (ctx (snd (getModule h s fname raw))))
      then 1 else 0)
     + createdFor h (snd (getModule h s fname raw)) reqs f"

fun runTransforms :: "'r host \<Rightarrow> plugin_state \<Rightarrow> (string \<times> string) list \<Rightarrow> plugin_state" where
  "runTransforms h s [] = s"
| "runTransforms h s ((raw, ident) # reqs) = runTransforms h (snd (transform h s raw ident)) reqs"

section \<open>The vocabulary of the specification\<close>


definition externalMember :: "program \<Rightarrow> string \<Rightarrow> bool" where
  "externalMember p fname =
     (case getSourceFile p fname of
        None \<Rightarrow> False
      | Some sf \<Rightarrow> isSourceFileFromExternalLibrary p sf)"

definition rootedAt :: "string \<Rightarrow> program \<Rightarrow> bool" where
  "rootedAt fname p = (fname \<in> set (getRootFileNames p))"


text \<open>The compiler reports a package id for the resolved module, and the name in it
  is one of \<^verbatim>\<open>includeExternal\<close>. A module for which no package id is reported is not
  listed in this sense, whatever \<^verbatim>\<open>includeExternal\<close> holds.\<close>

definition packageIdListed :: "ResolvedOptions \<Rightarrow> resolved_module \<Rightarrow> bool" where
  "packageIdListed opts r =
     (case packageId_name r of None \<Rightarrow> False | Some name \<Rightarrow> name \<in> set (includeExternal opts))"

text \<open>A source file: a recognised extension, neither a declaration file nor JSON. This
  is the condition under which \<open>transform\<close> reaches its last branch.\<close>

definition isSourceId :: "'r host \<Rightarrow> string \<Rightarrow> bool" where
  "isSourceId h ident =
     (TS_EXTENSIONS_test ident \<and> \<not> DTS_EXTENSIONS_test h ident \<and> \<not> JSON_EXTENSIONS_test h ident)"

text \<open>
  A transform request that creates no program when the pool is empty. A skipped file and
  a declaration file never do. A JSON file does not when it is not on disk. A source
  file whose derived declaration name matches the declaration pattern does not when the
  inner transform answers its raw text with a value, or when the file is not on disk;
  one whose derived name does not match the pattern does not when neither the derived
  name nor the file is on disk.
\<close>

definition keepsPoolEmpty :: "'r host \<Rightarrow> string \<Rightarrow> string \<Rightarrow> bool" where
  "keepsPoolEmpty h raw ident =
     (if \<not> TS_EXTENSIONS_test ident \<and> \<not> JSON_EXTENSIONS_test h ident then True
      else if DTS_EXTENSIONS_test h ident then True
      else if JSON_EXTENSIONS_test h ident then \<not> fileExists h ident
      else if DTS_EXTENSIONS_test h (getDeclarationId h ident)
      then transformPlugin_transform h (Some raw) (getDeclarationId h ident) \<noteq> None
           \<or> \<not> fileExists h ident
      else \<not> fileExists h (getDeclarationId h ident) \<and> \<not> fileExists h ident)"

section \<open>What is assumed of the compiler\<close>

text \<open>
  \<^verbatim>\<open>createProgram\<close> is not part of the verified source. Two properties of the
  programs it returns are named here and appear as hypotheses where a theorem needs
  them. The program created for a file does not hold that file as an external member,
  unless it serves the file in the search of \<open>getModule\<close> all the same (which it can only
  as the root of an entry point); the program need not hold the file at all. And the
  program created for a file does not serve another file that is not on disk.
\<close>

definition freshProgram :: "'r host \<Rightarrow> DtsPluginContext \<Rightarrow> string \<Rightarrow> program" where
  "freshProgram h c fname =
     createProgram h fname (compilerOptions (resolvedOptions c)) (tsconfig (resolvedOptions c))"

definition ownFileNotExternal :: "'r host \<Rightarrow> DtsPluginContext \<Rightarrow> string \<Rightarrow> bool" where
  "ownFileNotExternal h c fname =
     (if externalMember (freshProgram h c fname) fname
      then findCallback (fname \<in> set (entries c)) fname (freshProgram h c fname)
      else True)"

definition omitsMissingFile :: "'r host \<Rightarrow> DtsPluginContext \<Rightarrow> string \<Rightarrow> string \<Rightarrow> bool" where
  "omitsMissingFile h c fname other =
     (if fileExists h other then True
      else \<not> findCallback (other \<in> set (entries c)) other (freshProgram h c fname))"

section \<open>A concrete host\<close>

text \<open>
  A small project under \<^verbatim>\<open>/p\<close> for the worked examples. A program is given by its
  roots, its members with their external flag, and whether its emit fails; the host
  recognises \<^verbatim>\<open>.d.ts\<close> and \<^verbatim>\<open>.json\<close> names, knows five files on disk, creates
  for a file the program rooted at it alone, and has an inner transform that returns its
  arguments.
\<close>

definition mkProgram :: "string list \<Rightarrow> (string \<times> bool) list \<Rightarrow> bool \<Rightarrow> program" where
  "mkProgram roots members broken =
     \<lparr> getRootFileNames = roots,
       getSourceFile = (\<lambda>fname. map_option (\<lambda>_. \<lparr> fileName = fname, getFullText = ''// '' @ fname \<rparr>)
                                  (map_of members fname)),
       isSourceFileFromExternalLibrary = (\<lambda>sf. map_of members (fileName sf) = Some True),
       getSourceFiles = map (\<lambda>(fname, _). \<lparr> fileName = fname, getFullText = ''// '' @ fname \<rparr>) members,
       emit = (\<lambda>sf. if broken
                     then \<lparr> emitSkipped = True,
                            diagnostics = [\<lparr> category = CatWarning, messageText = ''unused'' \<rparr>,
                                           \<lparr> category = CatError, messageText = ''TS2322'' \<rparr>],
                            written = [] \<rparr>
                     else \<lparr> emitSkipped = False, diagnostics = [],
                            written = [''declare '' @ getFullText sf] \<rparr>) \<rparr>"

definition demoHost :: "(string option \<times> string) host" where
  "demoHost =
     \<lparr> DTS_EXTENSIONS_test = (\<lambda>s. endsWith s ''.d.ts''),
       JSON_EXTENSIONS_test = (\<lambda>s. endsWith s ''.json''),
       getDeclarationId =
         (\<lambda>s. if endsWith s ''.d.ts'' then s
               else if endsWith s ''.ts'' then take (length s - 3) s @ ''.d.ts''
               else if endsWith s ''.json'' then take (length s - 5) s @ ''.d.ts''
               else s),
       fileExists = (\<lambda>fname. fname \<in> set [''/p/a.ts'', ''/p/b.ts'', ''/p/data.json'',
                                           ''/p/index.d.ts'', ''/p/node_modules/lib/index.d.ts'']),
       createProgram = (\<lambda>fname co tc. mkProgram [fname] [(fname, False)] False),
       transformPlugin_transform = (\<lambda>text key. Some (text, key)),
       formatDiagnostics = (\<lambda>ds. concat (map messageText ds)),
       path_dirname = (\<lambda>_. ''/p''),
       path_resolve = (\<lambda>parts. last ([] # parts)),
       getCompilerOptions = (\<lambda>_ co _. co),
       resolveModuleName =
         (\<lambda>src importer co.
            if src = ''type-fest''
            then Some \<lparr> resolvedFileName = ''/p/node_modules/type-fest/index.d.ts'',
                        isExternalLibraryImport = True, packageId_name = Some ''type-fest'' \<rparr>
            else if src = ''lodash''
            then Some \<lparr> resolvedFileName = ''/p/node_modules/lodash/index.d.ts'',
                        isExternalLibraryImport = True, packageId_name = Some ''lodash'' \<rparr>
            else if src = ''./b'' \<and> importer = ''/p/a.ts''
            then Some \<lparr> resolvedFileName = ''/p/b.ts'',
                        isExternalLibraryImport = False, packageId_name = None \<rparr>
            else None) \<rparr>"

definition demoState :: "string list \<Rightarrow> program list \<Rightarrow> plugin_state" where
  "demoState es ps =
     \<lparr> ctx = \<lparr> entries = es, programs = ps,
               resolvedOptions = \<lparr> respectExternal = False, includeExternal = [''type-fest''],
                                   compilerOptions = [], tsconfig = None \<rparr> \<rparr>,
       counters = \<lparr> moduleResolutionStack = [], moduleResolutionCount = (\<lambda>_. None),
                    filesProcessed = {}, totalGetModuleCalls = 0 \<rparr> \<rparr>"

text \<open>A host whose compiler does not load JavaScript files: the program created for a
  \<^verbatim>\<open>.js\<close> file is rooted at it and holds no source file for it.\<close>

definition legacyHost :: "(string option \<times> string) host" where
  "legacyHost =
     demoHost
       \<lparr> getDeclarationId :=
           (\<lambda>s. if endsWith s ''.js'' then take (length s - 3) s @ ''.d.ts''
                 else getDeclarationId demoHost s),
         fileExists := (\<lambda>fname. fname = ''/p/legacy.js'' \<or> fileExists demoHost fname),
         createProgram :=
           (\<lambda>fname co tc. if endsWith fname ''.js'' then mkProgram [fname] [] False
                           else createProgram demoHost fname co tc) \<rparr>"

text \<open>A host whose module resolution reports no package id for \<^verbatim>\<open>lodash\<close>, and a
  state whose \<^verbatim>\<open>includeExternal\<close> lists \<^verbatim>\<open>lodash\<close>.\<close>

definition noPackageIdHost :: "(string option \<times> string) host" where
  "noPackageIdHost =
     demoHost
       \<lparr> resolveModuleName :=
           (\<lambda>src importer co.
              if src = ''lodash''
              then Some \<lparr> resolvedFileName = ''/p/node_modules/lodash/index.d.ts'',
                          isExternalLibraryImport = True, packageId_name = None \<rparr>
              else None) \<rparr>"

definition lodashListedState :: plugin_state where
  "lodashListedState =
     \<lparr> ctx = \<lparr> entries = [''/p/a.ts''], programs = [],
               resolvedOptions = \<lparr> respectExternal = False, includeExternal = [''lodash''],
                                   compilerOptions = [], tsconfig = None \<rparr> \<rparr>,
       counters = \<lparr> moduleResolutionStack = [], moduleResolutionCount = (\<lambda>_. None),
                    filesProcessed = {}, totalGetModuleCalls = 0 \<rparr> \<rparr>"

lemmas demo_eval = demoHost_def demoState_def mkProgram_def endsWith_def startsWith_def
  TS_EXTENSIONS_test_def findCallback_def someCallback_def getModule_def Let_def
  enter_def leave_def isSourceId_def

section \<open>The five outcomes of getModule\<close>

lemma leave_enter: "leave (enter k f) = k\<lparr> totalGetModuleCalls := totalGetModuleCalls k + 1,
   moduleResolutionCount := (moduleResolutionCount k)(f \<mapsto> (case moduleResolutionCount k f of None \<Rightarrow> 0 | Some n \<Rightarrow> n) + 1),
   filesProcessed := insert f (filesProcessed k) \<rparr>"
  by (simp add: leave_def enter_def Let_def)

lemma getModule_zero:
  "programs (ctx s) = [] \<Longrightarrow> DTS_EXTENSIONS_test h f \<Longrightarrow>
   getModule h s f raw =
     (Some \<lparr> code = Some raw, source = None, program = None \<rparr>,
      s\<lparr> counters := leave (enter (counters s) f) \<rparr>)"
  by (simp add: getModule_def Let_def)

lemma getModule_existing:
  "find (findCallback (f \<in> set (entries (ctx s))) f) (programs (ctx s)) = Some p \<Longrightarrow>
   getModule h s f raw =
     (Some \<lparr> code = map_option getFullText (getSourceFile p f), source = getSourceFile p f,
              program = Some p \<rparr>,
      s\<lparr> counters := leave (enter (counters s) f) \<rparr>)"
  by (auto simp add: getModule_def Let_def)

lemma getModule_external:
  "find (findCallback (f \<in> set (entries (ctx s))) f) (programs (ctx s)) = None \<Longrightarrow>
   fileExists h f \<Longrightarrow> programs (ctx s) \<noteq> [] \<Longrightarrow> DTS_EXTENSIONS_test h f \<Longrightarrow>
   list_ex (someCallback f) (programs (ctx s)) \<Longrightarrow>
   getModule h s f raw =
     (Some \<lparr> code = Some raw, source = None, program = None \<rparr>,
      s\<lparr> counters := leave (enter (counters s) f) \<rparr>)"
  by (simp add: getModule_def Let_def)

lemma getModule_create:
  "\<not> (programs (ctx s) = [] \<and> DTS_EXTENSIONS_test h f) \<Longrightarrow>
   find (findCallback (f \<in> set (entries (ctx s))) f) (programs (ctx s)) = None \<Longrightarrow>
   fileExists h f \<Longrightarrow>
   \<not> (programs (ctx s) \<noteq> [] \<and> DTS_EXTENSIONS_test h f \<and> list_ex (someCallback f) (programs (ctx s))) \<Longrightarrow>
   p = createProgram h f (compilerOptions (resolvedOptions (ctx s))) (tsconfig (resolvedOptions (ctx s))) \<Longrightarrow>
   getModule h s f raw =
     (Some \<lparr> code = map_option getFullText (getSourceFile p f), source = getSourceFile p f,
              program = Some p \<rparr>,
      s\<lparr> counters := leave (enter (counters s) f),
         ctx := (ctx s)\<lparr> programs := programs (ctx s) @ [p] \<rparr> \<rparr>)"
  by (simp add: getModule_def Let_def)

lemma getModule_notfound:
  "\<not> (programs (ctx s) = [] \<and> DTS_EXTENSIONS_test h f) \<Longrightarrow>
   find (findCallback (f \<in> set (entries (ctx s))) f) (programs (ctx s)) = None \<Longrightarrow>
   \<not> fileExists h f \<Longrightarrow>
   getModule h s f raw = (None, s\<lparr> counters := leave (enter (counters s) f) \<rparr>)"
  by (simp add: getModule_def Let_def)

lemma getModule_cases:
  obtains (zero) "programs (ctx s) = []" "DTS_EXTENSIONS_test h f"
  | (existing) p where "find (findCallback (f \<in> set (entries (ctx s))) f) (programs (ctx s)) = Some p"
  | (external) "find (findCallback (f \<in> set (entries (ctx s))) f) (programs (ctx s)) = None"
      "fileExists h f" "programs (ctx s) \<noteq> []" "DTS_EXTENSIONS_test h f"
      "list_ex (someCallback f) (programs (ctx s))"
  | (create) "\<not> (programs (ctx s) = [] \<and> DTS_EXTENSIONS_test h f)"
      "find (findCallback (f \<in> set (entries (ctx s))) f) (programs (ctx s)) = None"
      "fileExists h f"
      "\<not> (programs (ctx s) \<noteq> [] \<and> DTS_EXTENSIONS_test h f \<and> list_ex (someCallback f) (programs (ctx s)))"
  | (notfound) "\<not> (programs (ctx s) = [] \<and> DTS_EXTENSIONS_test h f)"
      "find (findCallback (f \<in> set (entries (ctx s))) f) (programs (ctx s)) = None"
      "\<not> fileExists h f"
  by (cases "find (findCallback (f \<in> set (entries (ctx s))) f) (programs (ctx s))") blast+

text \<open>What a call leaves alone, and what its result depends on.\<close>

lemma getModule_frame:
  "entries (ctx (snd (getModule h s f raw))) = entries (ctx s)"
  "resolvedOptions (ctx (snd (getModule h s f raw))) = resolvedOptions (ctx s)"
  by (cases rule: getModule_cases [of s h f];
      simp add: getModule_zero getModule_existing getModule_external
        getModule_create getModule_notfound)+

lemma getModule_pool:
  "programs (ctx (snd (getModule h s f raw))) = programs (ctx s) \<or>
   programs (ctx (snd (getModule h s f raw))) =
     programs (ctx s) @ [createProgram h f (compilerOptions (resolvedOptions (ctx s)))
        (tsconfig (resolvedOptions (ctx s)))]"
  by (cases rule: getModule_cases [of s h f];
      simp add: getModule_zero getModule_existing getModule_external
        getModule_create getModule_notfound)

lemma getModule_nonempty:
  "programs (ctx s) \<noteq> [] \<Longrightarrow> programs (ctx (snd (getModule h s f raw))) \<noteq> []"
  using getModule_pool [of h s f raw] by auto

lemma getModule_calls:
  "totalGetModuleCalls (counters (snd (getModule h s f raw))) = totalGetModuleCalls (counters s) + 1"
  by (cases rule: getModule_cases [of s h f])
    (simp_all add: getModule_zero getModule_existing getModule_external
      getModule_create getModule_notfound leave_enter)

lemma getModule_cong:
  assumes "ctx s = ctx t"
  shows "fst (getModule h s f raw) = fst (getModule h t f raw)
       \<and> ctx (snd (getModule h s f raw)) = ctx (snd (getModule h t f raw))"
  using assms
  by (auto simp add: getModule_def Let_def split: option.splits)

lemma getModule_notfound_ctx:
  "fst (getModule h s f raw) = None \<Longrightarrow> ctx (snd (getModule h s f raw)) = ctx s"
  by (cases rule: getModule_cases [of s h f])
    (simp_all add: getModule_zero getModule_existing getModule_external
      getModule_create getModule_notfound)

lemma getModule_notfound_D:
  assumes "fst (getModule h s f raw) = None"
  shows "\<not> (programs (ctx s) = [] \<and> DTS_EXTENSIONS_test h f)"
    and "find (findCallback (f \<in> set (entries (ctx s))) f) (programs (ctx s)) = None"
    and "\<not> fileExists h f"
  using assms
  by (cases rule: getModule_cases [of s h f];
      simp add: getModule_zero getModule_existing getModule_external
        getModule_create getModule_notfound)+


lemma list_ex_find: "list_ex P xs \<Longrightarrow> \<exists>x. find P xs = Some x"
  by (induction xs) auto

lemma find_append_Some: "find P xs = Some x \<Longrightarrow> find P (xs @ ys) = Some x"
  by (induction xs) (auto split: if_splits)

lemma find_append_None: "find P xs = None \<Longrightarrow> find P (xs @ ys) = find P ys"
  by (induction xs) (auto split: if_splits)


lemma findCallback_entry: "findCallback True f = rootedAt f"
  by (rule ext) (simp add: findCallback_def rootedAt_def)

section \<open>The branches of transform\<close>

lemma generateDts_state: "snd (generateDts h s raw ident) = snd (getModule h s ident raw)"
  by (simp add: generateDts_def Let_def split: prod.splits option.splits)

lemma generateDts_cong:
  "fst (getModule h s ident raw) = fst (getModule h t ident raw) \<Longrightarrow>
   fst (generateDts h s raw ident) = fst (generateDts h t raw ident)"
  by (cases "getModule h s ident raw"; cases "getModule h t ident raw")
     (auto simp add: generateDts_def Let_def split: option.splits)

lemma handleDtsFile_fst:
  "fst (handleDtsFile h s raw ident) =
     (case fst (getModule h s ident raw) of
        Some m \<Rightarrow> \<lparr> completion = Return (transformPlugin_transform h (code m) ident),
             addWatchFile = watchFiles h ident m, console_error = [] \<rparr>
      | None \<Rightarrow> returnNull)"
  "snd (handleDtsFile h s raw ident) = snd (getModule h s ident raw)"
  by (simp_all add: handleDtsFile_def split: prod.splits option.splits)

lemma transform_skip:
  "\<not> TS_EXTENSIONS_test ident \<and> \<not> JSON_EXTENSIONS_test h ident \<Longrightarrow>
   transform h s raw ident = (returnNull, s)"
  by (simp add: transform_def)

lemma transform_dts:
  "TS_EXTENSIONS_test ident \<or> JSON_EXTENSIONS_test h ident \<Longrightarrow> DTS_EXTENSIONS_test h ident \<Longrightarrow>
   transform h s raw ident = handleDtsFile h s raw ident"
  by (auto simp add: transform_def)

lemma transform_json:
  "\<not> DTS_EXTENSIONS_test h ident \<Longrightarrow> JSON_EXTENSIONS_test h ident \<Longrightarrow>
   transform h s raw ident = generateDts h s raw ident"
  by (auto simp add: transform_def)

lemma transform_source_notfound:
  assumes "isSourceId h ident" "getModule h s (getDeclarationId h ident) raw = (None, s1)"
  shows "transform h s raw ident = generateDts h s1 raw ident"
  using assms
  by (cases "generateDts h s1 raw ident")
    (simp add: transform_def isSourceId_def treatTsAsDts_def returnNull_def)

lemma transform_source_found:
  assumes "isSourceId h ident" "getModule h s (getDeclarationId h ident) raw = (Some m, s1)"
    "transformPlugin_transform h (code m) (getDeclarationId h ident) \<noteq> None"
  shows "transform h s raw ident =
     (\<lparr> completion = Return (transformPlugin_transform h (code m) (getDeclarationId h ident)),
        addWatchFile = watchFiles h ident m, console_error = [] \<rparr>, s1)"
  using assms
  by (auto simp add: transform_def isSourceId_def treatTsAsDts_def)

section \<open>No duplicate roots\<close>

lemma served_by_root:
  assumes "f \<in> set (entries (ctx s))" "find (rootedAt f) (programs (ctx s)) = Some p"
  shows "getModule h s f raw =
      (Some \<lparr> code = map_option getFullText (getSourceFile p f),
               source = getSourceFile p f, program = Some p \<rparr>,
       s\<lparr> counters := leave (enter (counters s) f) \<rparr>)"
  using assms by (intro getModule_existing) (simp add: findCallback_entry)

lemma resolveAll_frame:
  "entries (ctx (resolveAll h s reqs)) = entries (ctx s)
   \<and> resolvedOptions (ctx (resolveAll h s reqs)) = resolvedOptions (ctx s)"
  by (induction reqs arbitrary: s) (auto simp add: getModule_frame)

lemma resolveAll_extends:
  "\<exists>ext. programs (ctx (resolveAll h s reqs)) = programs (ctx s) @ ext"
proof (induction reqs arbitrary: s)
  case Nil
  then show ?case by simp
next
  case (Cons rq reqs)
  obtain g raw where rq: "rq = (g, raw)" by (cases rq)
  from getModule_pool [of h s g raw]
  obtain e1 where e1: "programs (ctx (snd (getModule h s g raw))) = programs (ctx s) @ e1"
    by auto
  from Cons.IH [of "snd (getModule h s g raw)"] obtain e2 where
    "programs (ctx (resolveAll h (snd (getModule h s g raw)) reqs)) =
       programs (ctx (snd (getModule h s g raw))) @ e2" ..
  with e1 rq show ?case by simp
qed

lemma createdFor_rooted:
  "f \<in> set (entries (ctx s)) \<Longrightarrow> list_ex (rootedAt f) (programs (ctx s)) \<Longrightarrow>
   createdFor h s reqs f = 0"
proof (induction reqs arbitrary: s)
  case Nil
  then show ?case by simp
next
  case (Cons rq reqs)
  obtain g raw where rq: "rq = (g, raw)" by (cases rq)
  let ?s' = "snd (getModule h s g raw)"
  from getModule_pool [of h s g raw]
  obtain e1 where e1: "programs (ctx ?s') = programs (ctx s) @ e1" by auto
  with Cons.prems have rooted': "list_ex (rootedAt f) (programs (ctx ?s'))" by auto
  have entry': "f \<in> set (entries (ctx ?s'))"
    using Cons.prems by (simp add: getModule_frame)
  have here: "g = f \<Longrightarrow> programs (ctx ?s') = programs (ctx s)"
  proof -
    assume "g = f"
    from list_ex_find [OF Cons.prems(2)] obtain p where
      "find (rootedAt f) (programs (ctx s)) = Some p" ..
    from served_by_root [OF Cons.prems(1) this, of h raw] \<open>g = f\<close> show ?thesis by simp
  qed
  from Cons.IH [OF entry' rooted'] here rq show ?case by auto
qed

lemma createdFor_le_1:
  assumes "f \<in> set (entries (ctx s))"
    and "rootedAt f (createProgram h f (compilerOptions (resolvedOptions (ctx s)))
           (tsconfig (resolvedOptions (ctx s))))"
  shows "createdFor h s reqs f \<le> 1"
  using assms
proof (induction reqs arbitrary: s)
  case Nil
  then show ?case by simp
next
  case (Cons rq reqs)
  obtain g raw where rq: "rq = (g, raw)" by (cases rq)
  let ?s' = "snd (getModule h s g raw)"
  have entry': "f \<in> set (entries (ctx ?s'))"
    using Cons.prems by (simp add: getModule_frame)
  have opts': "rootedAt f (createProgram h f (compilerOptions (resolvedOptions (ctx ?s')))
           (tsconfig (resolvedOptions (ctx ?s'))))"
    using Cons.prems by (simp add: getModule_frame)
  show ?case
  proof (cases "g = f \<and> length (programs (ctx s)) < length (programs (ctx ?s'))")
    case True
    with getModule_pool [of h s g raw] have
      "programs (ctx ?s') = programs (ctx s) @ [createProgram h f
          (compilerOptions (resolvedOptions (ctx s))) (tsconfig (resolvedOptions (ctx s)))]"
      by auto
    with Cons.prems(2) have "list_ex (rootedAt f) (programs (ctx ?s'))" by simp
    from createdFor_rooted [OF entry' this] have "createdFor h ?s' reqs f = 0" .
    with True rq show ?thesis by auto
  next
    case False
    with Cons.IH [OF entry' opts'] rq show ?thesis by auto
  qed
qed

text \<open>
  Claim C1. Let \<open>f\<close> be a registered entry point, and let the program created for \<open>f\<close>
  have \<open>f\<close> among its root files. Then in any run of resolution requests, from any state,
  at most one request for \<open>f\<close> creates a program. Once the pool holds a program rooted
  at \<open>f\<close>, no request for \<open>f\<close> creates one, and after any further requests a request for
  \<open>f\<close> is served by the first program of the pool rooted at \<open>f\<close>, found through its root
  files.
\<close>

theorem no_duplicate_roots:
  assumes "f \<in> set (entries (ctx s))"
    and "rootedAt f (createProgram h f (compilerOptions (resolvedOptions (ctx s)))
           (tsconfig (resolvedOptions (ctx s))))"
  shows "createdFor h s reqs f \<le> 1
       \<and> (list_ex (rootedAt f) (programs (ctx s)) \<longrightarrow>
            createdFor h s reqs f = 0
            \<and> (\<exists>p. find (rootedAt f) (programs (ctx s)) = Some p
                  \<and> getModule h (resolveAll h s reqs) f raw =
                      (Some \<lparr> code = map_option getFullText (getSourceFile p f),
                               source = getSourceFile p f, program = Some p \<rparr>,
                       (resolveAll h s reqs)
                         \<lparr> counters := leave (enter (counters (resolveAll h s reqs)) f) \<rparr>)))"
proof (intro conjI impI)
  show "createdFor h s reqs f \<le> 1" using assms by (rule createdFor_le_1)
next
  assume r: "list_ex (rootedAt f) (programs (ctx s))"
  with assms(1) show "createdFor h s reqs f = 0" by (rule createdFor_rooted)
  from list_ex_find [OF r] obtain p where p: "find (rootedAt f) (programs (ctx s)) = Some p" ..
  from resolveAll_extends [of h s reqs] obtain e where
    "programs (ctx (resolveAll h s reqs)) = programs (ctx s) @ e" ..
  with p have "find (rootedAt f) (programs (ctx (resolveAll h s reqs))) = Some p"
    by (simp add: find_append_Some)
  moreover have "f \<in> set (entries (ctx (resolveAll h s reqs)))"
    using assms(1) by (simp add: resolveAll_frame)
  ultimately have "getModule h (resolveAll h s reqs) f raw =
      (Some \<lparr> code = map_option getFullText (getSourceFile p f),
               source = getSourceFile p f, program = Some p \<rparr>,
       (resolveAll h s reqs)\<lparr> counters := leave (enter (counters (resolveAll h s reqs)) f) \<rparr>)"
    by (intro served_by_root)
  with p show "\<exists>p. find (rootedAt f) (programs (ctx s)) = Some p
                  \<and> getModule h (resolveAll h s reqs) f raw =
                      (Some \<lparr> code = map_option getFullText (getSourceFile p f),
                               source = getSourceFile p f, program = Some p \<rparr>,
                       (resolveAll h s reqs)
                         \<lparr> counters := leave (enter (counters (resolveAll h s reqs)) f) \<rparr>)"
    by blast
qed

text \<open>Two runs for the entry point \<^verbatim>\<open>/p/a.ts\<close>: from an empty pool, and from a pool
  that holds the program rooted at it.\<close>

theorem no_duplicate_roots_witness:
  "''/p/a.ts'' \<in> set (entries (ctx (demoState [''/p/a.ts''] [])))
   \<and> rootedAt ''/p/a.ts'' (createProgram demoHost ''/p/a.ts''
        (compilerOptions (resolvedOptions (ctx (demoState [''/p/a.ts''] []))))
        (tsconfig (resolvedOptions (ctx (demoState [''/p/a.ts''] [])))))
   \<and> createdFor demoHost (demoState [''/p/a.ts''] [])
        [(''/p/a.ts'', ''x''), (''/p/b.ts'', ''y''), (''/p/a.ts'', ''x'')] ''/p/a.ts'' \<le> 1
   \<and> createdFor demoHost (demoState [''/p/a.ts''] [])
        [(''/p/a.ts'', ''x''), (''/p/b.ts'', ''y''), (''/p/a.ts'', ''x'')] ''/p/a.ts'' = 1
   \<and> length (programs (ctx (resolveAll demoHost (demoState [''/p/a.ts''] [])
        [(''/p/a.ts'', ''x''), (''/p/b.ts'', ''y''), (''/p/a.ts'', ''x'')]))) = 2
   \<and> list_ex (rootedAt ''/p/a.ts'')
        (programs (ctx (demoState [''/p/a.ts''] [mkProgram [''/p/a.ts''] [(''/p/a.ts'', False)] False])))
   \<and> createdFor demoHost (demoState [''/p/a.ts''] [mkProgram [''/p/a.ts''] [(''/p/a.ts'', False)] False])
        [(''/p/b.ts'', ''y''), (''/p/a.ts'', ''x'')] ''/p/a.ts'' = 0
   \<and> fst (getModule demoHost
          (resolveAll demoHost
             (demoState [''/p/a.ts''] [mkProgram [''/p/a.ts''] [(''/p/a.ts'', False)] False])
             [(''/p/b.ts'', ''y''), (''/p/a.ts'', ''x'')])
          ''/p/a.ts'' ''x'') =
       Some \<lparr> code = Some ''// /p/a.ts'',
              source = Some \<lparr> fileName = ''/p/a.ts'', getFullText = ''// /p/a.ts'' \<rparr>,
              program = Some (mkProgram [''/p/a.ts''] [(''/p/a.ts'', False)] False) \<rparr>"
proof -
  let ?pa = "mkProgram [''/p/a.ts''] [(''/p/a.ts'', False)] False"
  let ?s0 = "demoState [''/p/a.ts''] []"
  let ?s1 = "demoState [''/p/a.ts''] [?pa]"
  have e0: "''/p/a.ts'' \<in> set (entries (ctx ?s0))" by (simp add: demoState_def)
  have r0: "rootedAt ''/p/a.ts'' (createProgram demoHost ''/p/a.ts''
        (compilerOptions (resolvedOptions (ctx ?s0))) (tsconfig (resolvedOptions (ctx ?s0))))"
    by (simp add: rootedAt_def demoHost_def mkProgram_def)
  have e1: "''/p/a.ts'' \<in> set (entries (ctx ?s1))" by (simp add: demoState_def)
  have r1: "rootedAt ''/p/a.ts'' (createProgram demoHost ''/p/a.ts''
        (compilerOptions (resolvedOptions (ctx ?s1))) (tsconfig (resolvedOptions (ctx ?s1))))"
    by (simp add: rootedAt_def demoHost_def mkProgram_def)
  have l1: "list_ex (rootedAt ''/p/a.ts'') (programs (ctx ?s1))"
    by (simp add: rootedAt_def demoState_def mkProgram_def)
  have f1: "find (rootedAt ''/p/a.ts'') (programs (ctx ?s1)) = Some ?pa"
    by (simp add: rootedAt_def demoState_def mkProgram_def)
  have src: "getSourceFile ?pa ''/p/a.ts'' = Some \<lparr> fileName = ''/p/a.ts'', getFullText = ''// /p/a.ts'' \<rparr>"
    by (simp add: mkProgram_def)
  note A = no_duplicate_roots [OF e0 r0,
      of "[(''/p/a.ts'', ''x''), (''/p/b.ts'', ''y''), (''/p/a.ts'', ''x'')]" "''x''"]
  note B = no_duplicate_roots [OF e1 r1, of "[(''/p/b.ts'', ''y''), (''/p/a.ts'', ''x'')]" "''x''"]
  from A have a: "createdFor demoHost ?s0
        [(''/p/a.ts'', ''x''), (''/p/b.ts'', ''y''), (''/p/a.ts'', ''x'')] ''/p/a.ts'' \<le> 1"
    by (rule conjunct1)
  from B l1 f1 src have b: "createdFor demoHost ?s1
        [(''/p/b.ts'', ''y''), (''/p/a.ts'', ''x'')] ''/p/a.ts'' = 0"
    and c: "fst (getModule demoHost (resolveAll demoHost ?s1 [(''/p/b.ts'', ''y''), (''/p/a.ts'', ''x'')])
          ''/p/a.ts'' ''x'') =
       Some \<lparr> code = Some ''// /p/a.ts'',
              source = Some \<lparr> fileName = ''/p/a.ts'', getFullText = ''// /p/a.ts'' \<rparr>,
              program = Some ?pa \<rparr>"
    by auto
  have a': "createdFor demoHost ?s0
        [(''/p/a.ts'', ''x''), (''/p/b.ts'', ''y''), (''/p/a.ts'', ''x'')] ''/p/a.ts'' = 1"
    and a'': "length (programs (ctx (resolveAll demoHost ?s0
        [(''/p/a.ts'', ''x''), (''/p/b.ts'', ''y''), (''/p/a.ts'', ''x'')]))) = 2"
    by (simp_all add: demo_eval)
  from e0 r0 a a' a'' l1 b c show ?thesis by blast
qed

section \<open>The existing-unit search\<close>



section \<open>The external-library fast path\<close>

lemma external_member_no_growth:
  assumes "DTS_EXTENSIONS_test h f" "list_ex (someCallback f) (programs (ctx s))"
  shows "ctx (snd (getModule h s f raw)) = ctx s"
proof -
  from assms(2) have ne: "programs (ctx s) \<noteq> []" by auto
  show ?thesis
    using assms ne
    by (cases rule: getModule_cases [of s h f])
      (simp_all add: getModule_existing getModule_external getModule_notfound)
qed

lemma resolveAll_external_members:
  "\<forall>(f, raw)\<in>set reqs. DTS_EXTENSIONS_test h f \<and> list_ex (someCallback f) (programs (ctx s))
   \<Longrightarrow> ctx (resolveAll h s reqs) = ctx s"
proof (induction reqs arbitrary: s)
  case Nil
  then show ?case by simp
next
  case (Cons rq reqs)
  obtain f raw where rq: "rq = (f, raw)" by (cases rq)
  from Cons.prems rq have step: "ctx (snd (getModule h s f raw)) = ctx s"
    by (intro external_member_no_growth) simp_all
  from Cons.prems step have
    "\<forall>(g, raw')\<in>set reqs. DTS_EXTENSIONS_test h g
        \<and> list_ex (someCallback g) (programs (ctx (snd (getModule h s f raw))))"
    by simp
  from Cons.IH [OF this] step rq show ?case by simp
qed

text \<open>
  Claim C3. If the search matches no unit, the file is on disk, its name matches the
  declaration pattern, the pool is not empty and some unit holds the file as an external
  member, the request returns the raw text with no source file and no program, and only
  the counters change. And a run of requests, each for a declaration file that some unit
  of the pool holds as an external member, leaves the pool as it was.
\<close>

theorem external_fast_path:
  "(\<not> list_ex (findCallback (f \<in> set (entries (ctx s))) f) (programs (ctx s))
      \<and> fileExists h f \<and> DTS_EXTENSIONS_test h f \<and> programs (ctx s) \<noteq> []
      \<and> list_ex (someCallback f) (programs (ctx s))
    \<longrightarrow> getModule h s f raw =
          (Some \<lparr> code = Some raw, source = None, program = None \<rparr>,
           s\<lparr> counters := leave (enter (counters s) f) \<rparr>))
   \<and> ((\<forall>(g, raw')\<in>set reqs.
          DTS_EXTENSIONS_test h g \<and> list_ex (someCallback g) (programs (ctx s)))
    \<longrightarrow> programs (ctx (resolveAll h s reqs)) = programs (ctx s))"
proof (intro conjI impI)
  assume a: "\<not> list_ex (findCallback (f \<in> set (entries (ctx s))) f) (programs (ctx s))
      \<and> fileExists h f \<and> DTS_EXTENSIONS_test h f \<and> programs (ctx s) \<noteq> []
      \<and> list_ex (someCallback f) (programs (ctx s))"
  then have "find (findCallback (f \<in> set (entries (ctx s))) f) (programs (ctx s)) = None"
    by (auto simp add: find_None_iff list_ex_iff)
  with a show "getModule h s f raw =
          (Some \<lparr> code = Some raw, source = None, program = None \<rparr>,
           s\<lparr> counters := leave (enter (counters s) f) \<rparr>)"
    by (intro getModule_external) simp_all
next
  assume "\<forall>(g, raw')\<in>set reqs.
          DTS_EXTENSIONS_test h g \<and> list_ex (someCallback g) (programs (ctx s))"
  then show "programs (ctx (resolveAll h s reqs)) = programs (ctx s)"
    by (simp add: resolveAll_external_members)
qed

text \<open>Two requests for a declaration file of the package \<^verbatim>\<open>lib\<close>, an external member
  of the only unit.\<close>

theorem external_fast_path_witness:
  "\<not> list_ex (findCallback False ''/p/node_modules/lib/index.d.ts'')
        [mkProgram [''/p/a.ts''] [(''/p/a.ts'', False), (''/p/node_modules/lib/index.d.ts'', True)] False]
   \<and> fileExists demoHost ''/p/node_modules/lib/index.d.ts''
   \<and> DTS_EXTENSIONS_test demoHost ''/p/node_modules/lib/index.d.ts''
   \<and> list_ex (someCallback ''/p/node_modules/lib/index.d.ts'')
        [mkProgram [''/p/a.ts''] [(''/p/a.ts'', False), (''/p/node_modules/lib/index.d.ts'', True)] False]
   \<and> fst (getModule demoHost
        (demoState [''/p/a.ts'']
           [mkProgram [''/p/a.ts''] [(''/p/a.ts'', False), (''/p/node_modules/lib/index.d.ts'', True)] False])
        ''/p/node_modules/lib/index.d.ts'' ''export type T = 1'') =
       Some \<lparr> code = Some ''export type T = 1'', source = None, program = None \<rparr>
   \<and> programs (ctx (resolveAll demoHost
        (demoState [''/p/a.ts'']
           [mkProgram [''/p/a.ts''] [(''/p/a.ts'', False), (''/p/node_modules/lib/index.d.ts'', True)] False])
        [(''/p/node_modules/lib/index.d.ts'', ''export type T = 1''),
         (''/p/node_modules/lib/index.d.ts'', ''export type T = 1'')])) =
       [mkProgram [''/p/a.ts''] [(''/p/a.ts'', False), (''/p/node_modules/lib/index.d.ts'', True)] False]"
proof -
  let ?lib = "mkProgram [''/p/a.ts''] [(''/p/a.ts'', False), (''/p/node_modules/lib/index.d.ts'', True)] False"
  let ?s = "demoState [''/p/a.ts''] [?lib]"
  let ?f = "''/p/node_modules/lib/index.d.ts''"
  have pool: "programs (ctx ?s) = [?lib]" and es: "entries (ctx ?s) = [''/p/a.ts'']"
    by (simp_all add: demoState_def)
  have nf: "\<not> list_ex (findCallback False ?f) [?lib]"
    by (simp add: findCallback_def mkProgram_def)
  have ex: "fileExists demoHost ?f" by (simp add: demoHost_def)
  have dts: "DTS_EXTENSIONS_test demoHost ?f" by (simp add: demoHost_def endsWith_def)
  have some: "list_ex (someCallback ?f) [?lib]" by (simp add: someCallback_def mkProgram_def)
  let ?reqs = "[(?f, ''export type T = 1''), (?f, ''export type T = 1'')]"
  note T = external_fast_path [of ?f ?s demoHost "''export type T = 1''" ?reqs]
  have h1: "\<not> list_ex (findCallback (?f \<in> set (entries (ctx ?s))) ?f) (programs (ctx ?s))
      \<and> fileExists demoHost ?f \<and> DTS_EXTENSIONS_test demoHost ?f \<and> programs (ctx ?s) \<noteq> []
      \<and> list_ex (someCallback ?f) (programs (ctx ?s))"
    using nf ex dts some by (simp add: pool es)
  have h2: "\<forall>(g, raw')\<in>set ?reqs.
          DTS_EXTENSIONS_test demoHost g \<and> list_ex (someCallback g) (programs (ctx ?s))"
    using dts some by (simp add: pool)
  from T h1 have "getModule demoHost ?s ?f ''export type T = 1'' =
          (Some \<lparr> code = Some ''export type T = 1'', source = None, program = None \<rparr>,
           ?s\<lparr> counters := leave (enter (counters ?s) ?f) \<rparr>)"
    by blast
  then have "fst (getModule demoHost ?s ?f ''export type T = 1'') =
       Some \<lparr> code = Some ''export type T = 1'', source = None, program = None \<rparr>"
    by simp
  moreover from T h2 have "programs (ctx (resolveAll demoHost ?s ?reqs)) = programs (ctx ?s)"
    by blast
  then have "programs (ctx (resolveAll demoHost ?s ?reqs)) = [?lib]"
    by (simp only: pool)
  ultimately have "fst (getModule demoHost ?s ?f ''export type T = 1'') =
       Some \<lparr> code = Some ''export type T = 1'', source = None, program = None \<rparr>"
    and "programs (ctx (resolveAll demoHost ?s ?reqs)) = [?lib]"
    by blast+
  with nf ex dts some show ?thesis by blast
qed

section \<open>The zero-program fast path\<close>

text \<open>
  Claim C4 as stated fails. With the single entry point \<^verbatim>\<open>/p/index.d.ts\<close> and an empty
  pool, a transform request for the entry point followed by one for \<^verbatim>\<open>/p/data.json\<close>,
  a file on disk, leaves a pool of one program: the JSON branch of \<open>transform\<close> calls
  \<^verbatim>\<open>generateDts\<close>, whose resolution request is not for a declaration file and so
  passes the fast path and creates a program.
\<close>

theorem declaration_entry_session_counterexample:
  "entries (ctx (demoState [''/p/index.d.ts''] [])) = [''/p/index.d.ts'']
   \<and> DTS_EXTENSIONS_test demoHost ''/p/index.d.ts''
   \<and> programs (ctx (demoState [''/p/index.d.ts''] [])) = []
   \<and> programs (ctx (runTransforms demoHost (demoState [''/p/index.d.ts''] [])
           [(''export {}'', ''/p/index.d.ts''), (''{}'', ''/p/data.json'')])) =
       [mkProgram [''/p/data.json''] [(''/p/data.json'', False)] False]
   \<and> programs (ctx (runTransforms demoHost (demoState [''/p/index.d.ts''] [])
           [(''export {}'', ''/p/index.d.ts''), (''{}'', ''/p/data.json'')])) \<noteq> []"
  by (simp add: demo_eval transform_def handleDtsFile_def generateDts_def watchFiles_def)

text \<open>What a transform request does to an empty pool, and that a pool never shrinks.\<close>

lemma getModule_empty_pool:
  assumes "programs (ctx s) = []"
  shows "programs (ctx (snd (getModule h s f raw))) =
           (if \<not> DTS_EXTENSIONS_test h f \<and> fileExists h f then [freshProgram h (ctx s) f] else [])"
  using assms by (simp add: getModule_def Let_def freshProgram_def)

lemma getModule_empty_pool_fst:
  assumes "programs (ctx s) = []" "\<not> DTS_EXTENSIONS_test h f" "\<not> fileExists h f"
  shows "fst (getModule h s f raw) = None"
  using assms by (simp add: getModule_def Let_def)

lemma treatTsAsDts_state:
  "snd (treatTsAsDts h s raw ident) = snd (getModule h s (getDeclarationId h ident) raw)"
  by (simp add: treatTsAsDts_def Let_def split: prod.splits option.splits)

lemma treatTsAsDts_nullish:
  "completion (fst (treatTsAsDts h s raw ident)) = Return None \<longleftrightarrow>
     (case fst (getModule h s (getDeclarationId h ident) raw) of
        None \<Rightarrow> True
      | Some m \<Rightarrow> transformPlugin_transform h (code m) (getDeclarationId h ident) = None)"
  by (simp add: treatTsAsDts_def Let_def returnNull_def split: prod.splits option.splits)

lemma transform_source_state:
  assumes "isSourceId h ident"
  shows "snd (transform h s raw ident) =
           (if completion (fst (treatTsAsDts h s raw ident)) = Return None
            then snd (getModule h (snd (getModule h s (getDeclarationId h ident) raw)) ident raw)
            else snd (getModule h s (getDeclarationId h ident) raw))"
proof -
  obtain t s1 where t: "treatTsAsDts h s raw ident = (t, s1)"
    by (cases "treatTsAsDts h s raw ident")
  then have s1: "s1 = snd (getModule h s (getDeclarationId h ident) raw)"
    using treatTsAsDts_state [of h s raw ident] by simp
  obtain g s2 where g: "generateDts h s1 raw ident = (g, s2)"
    by (cases "generateDts h s1 raw ident")
  then have s2: "s2 = snd (getModule h s1 ident raw)"
    using generateDts_state [of h s1 raw ident] by simp
  from assms t g s1 s2 show ?thesis
    by (auto simp add: transform_def isSourceId_def split: completion.splits option.splits)
qed

lemma transform_nonempty:
  assumes "programs (ctx s) \<noteq> []"
  shows "programs (ctx (snd (transform h s raw ident))) \<noteq> []"
proof (cases "isSourceId h ident")
  case True
  from assms show ?thesis
    by (simp add: transform_source_state [OF True] getModule_nonempty)
next
  case False
  show ?thesis
  proof (cases "\<not> TS_EXTENSIONS_test ident \<and> \<not> JSON_EXTENSIONS_test h ident")
    case True
    with assms show ?thesis by (simp add: transform_skip)
  next
    case skip: False
    show ?thesis
    proof (cases "DTS_EXTENSIONS_test h ident")
      case True
      with skip have "transform h s raw ident = handleDtsFile h s raw ident"
        by (intro transform_dts) auto
      with assms show ?thesis by (simp add: handleDtsFile_fst getModule_nonempty)
    next
      case nd: False
      with skip False have "JSON_EXTENSIONS_test h ident" by (auto simp add: isSourceId_def)
      with nd have "transform h s raw ident = generateDts h s raw ident"
        by (intro transform_json)
      with assms show ?thesis by (simp add: generateDts_state getModule_nonempty)
    qed
  qed
qed

lemma transform_json_creates:
  assumes "programs (ctx s) = []" "JSON_EXTENSIONS_test h ident" "\<not> DTS_EXTENSIONS_test h ident"
    "fileExists h ident"
  shows "transform h s raw ident = generateDts h s raw ident"
    and "programs (ctx (snd (transform h s raw ident))) = [freshProgram h (ctx s) ident]"
proof -
  from assms show t: "transform h s raw ident = generateDts h s raw ident"
    by (intro transform_json)
  from assms show "programs (ctx (snd (transform h s raw ident))) = [freshProgram h (ctx s) ident]"
    by (simp add: t generateDts_state getModule_empty_pool)
qed

lemma transform_empty_iff:
  assumes e: "programs (ctx s) = []"
  shows "programs (ctx (snd (transform h s raw ident))) = [] \<longleftrightarrow> keepsPoolEmpty h raw ident"
proof (cases "isSourceId h ident")
  case src: True
  let ?d = "getDeclarationId h ident"
  let ?s1 = "snd (getModule h s ?d raw)"
  from src have nd: "\<not> DTS_EXTENSIONS_test h ident" and nj: "\<not> JSON_EXTENSIONS_test h ident"
    and ts: "TS_EXTENSIONS_test ident"
    by (simp_all add: isSourceId_def)
  show ?thesis
  proof (cases "DTS_EXTENSIONS_test h ?d")
    case True
    from getModule_zero [OF e True, of raw]
    have g: "getModule h s ?d raw = (Some \<lparr> code = Some raw, source = None, program = None \<rparr>,
               s\<lparr> counters := leave (enter (counters s) ?d) \<rparr>)" .
    then have p1: "programs (ctx ?s1) = []" using e by simp
    from g have n: "completion (fst (treatTsAsDts h s raw ident)) = Return None \<longleftrightarrow>
        transformPlugin_transform h (Some raw) ?d = None"
      by (simp add: treatTsAsDts_nullish)
    show ?thesis
      using True nd nj ts p1
      by (simp add: transform_source_state [OF src] n keepsPoolEmpty_def getModule_empty_pool)
  next
    case False
    show ?thesis
    proof (cases "fileExists h ?d")
      case True
      with e False have "programs (ctx ?s1) \<noteq> []" by (simp add: getModule_empty_pool)
      then have "programs (ctx (snd (transform h s raw ident))) \<noteq> []"
        by (simp add: transform_source_state [OF src] getModule_nonempty)
      with True False nd nj ts show ?thesis by (simp add: keepsPoolEmpty_def)
    next
      case ne: False
      from e False ne have g: "fst (getModule h s ?d raw) = None"
        by (rule getModule_empty_pool_fst)
      from e False ne have p1: "programs (ctx ?s1) = []" by (simp add: getModule_empty_pool)
      from g have n: "completion (fst (treatTsAsDts h s raw ident)) = Return None"
        by (simp add: treatTsAsDts_nullish)
      show ?thesis
        using False ne nd nj ts p1
        by (simp add: transform_source_state [OF src] n keepsPoolEmpty_def getModule_empty_pool)
    qed
  qed
next
  case False
  show ?thesis
  proof (cases "\<not> TS_EXTENSIONS_test ident \<and> \<not> JSON_EXTENSIONS_test h ident")
    case True
    with e show ?thesis by (simp add: transform_skip keepsPoolEmpty_def)
  next
    case skip: False
    show ?thesis
    proof (cases "DTS_EXTENSIONS_test h ident")
      case True
      with skip have "transform h s raw ident = handleDtsFile h s raw ident"
        by (intro transform_dts) auto
      with e True skip show ?thesis
        by (auto simp add: handleDtsFile_fst getModule_empty_pool keepsPoolEmpty_def)
    next
      case nd: False
      with skip False have j: "JSON_EXTENSIONS_test h ident" by (auto simp add: isSourceId_def)
      with nd have "transform h s raw ident = generateDts h s raw ident"
        by (intro transform_json)
      with e nd j show ?thesis
        by (simp add: generateDts_state getModule_empty_pool keepsPoolEmpty_def)
    qed
  qed
qed

lemma runTransforms_nonempty:
  "programs (ctx s) \<noteq> [] \<Longrightarrow> programs (ctx (runTransforms h s reqs)) \<noteq> []"
proof (induction reqs arbitrary: s)
  case Nil
  then show ?case by simp
next
  case (Cons rq reqs)
  obtain raw ident where rq: "rq = (raw, ident)" by (cases rq)
  from Cons.prems have "programs (ctx (snd (transform h s raw ident))) \<noteq> []"
    by (rule transform_nonempty)
  from Cons.IH [OF this] rq show ?case by simp
qed

lemma runTransforms_empty_iff:
  "programs (ctx s) = [] \<Longrightarrow>
   programs (ctx (runTransforms h s reqs)) = [] \<longleftrightarrow>
     (\<forall>(raw, ident)\<in>set reqs. keepsPoolEmpty h raw ident)"
proof (induction reqs arbitrary: s)
  case Nil
  then show ?case by simp
next
  case (Cons rq reqs)
  obtain raw ident where rq: "rq = (raw, ident)" by (cases rq)
  show ?case
  proof (cases "keepsPoolEmpty h raw ident")
    case True
    with Cons.prems have "programs (ctx (snd (transform h s raw ident))) = []"
      by (simp add: transform_empty_iff)
    from Cons.IH [OF this] True rq show ?thesis by simp
  next
    case False
    with Cons.prems have "programs (ctx (snd (transform h s raw ident))) \<noteq> []"
      by (simp add: transform_empty_iff)
    then have "programs (ctx (runTransforms h (snd (transform h s raw ident)) reqs)) \<noteq> []"
      by (rule runTransforms_nonempty)
    with False rq show ?thesis by simp
  qed
qed

text \<open>
  Claim C4, amended. While the pool is empty, a request for a file whose name matches the
  declaration pattern returns the raw text with no source file and no program, and the
  pool stays empty. A run of transform requests from an empty pool ends with an empty
  pool exactly when none of its requests creates a program in the sense of
  \<open>keepsPoolEmpty\<close>. And with an empty pool a transform request for a JSON file that is on
  disk, its name not a declaration name, is \<^verbatim>\<open>generateDts\<close> and leaves a pool of one
  program, the one created for the file.
\<close>

theorem zero_program_fast_path:
  assumes "programs (ctx s) = []"
  shows "(DTS_EXTENSIONS_test h f \<longrightarrow>
            fst (getModule h s f raw) = Some \<lparr> code = Some raw, source = None, program = None \<rparr>
            \<and> programs (ctx (snd (getModule h s f raw))) = [])
       \<and> (programs (ctx (runTransforms h s reqs)) = [] \<longleftrightarrow>
            (\<forall>(raw', ident)\<in>set reqs. keepsPoolEmpty h raw' ident))
       \<and> (JSON_EXTENSIONS_test h ident \<and> \<not> DTS_EXTENSIONS_test h ident \<and> fileExists h ident \<longrightarrow>
            transform h s raw ident = generateDts h s raw ident
            \<and> programs (ctx (snd (transform h s raw ident))) =
                [createProgram h ident (compilerOptions (resolvedOptions (ctx s)))
                   (tsconfig (resolvedOptions (ctx s)))])"
  using assms runTransforms_empty_iff [OF assms, of h reqs]
    transform_json_creates [OF assms, of h ident raw]
  by (simp add: getModule_zero freshProgram_def)

text \<open>The entry point \<^verbatim>\<open>/p/index.d.ts\<close>, the source file \<^verbatim>\<open>/p/b.ts\<close> and a JSON
  file that is not on disk keep the pool empty; \<^verbatim>\<open>/p/data.json\<close>, on disk, does
  not.\<close>

theorem zero_program_fast_path_witness:
  "programs (ctx (demoState [''/p/index.d.ts''] [])) = []
   \<and> DTS_EXTENSIONS_test demoHost ''/p/index.d.ts''
   \<and> keepsPoolEmpty demoHost ''export {}'' ''/p/index.d.ts''
   \<and> keepsPoolEmpty demoHost ''export const b = 1'' ''/p/b.ts''
   \<and> keepsPoolEmpty demoHost ''{}'' ''/p/missing.json''
   \<and> fst (getModule demoHost (demoState [''/p/index.d.ts''] []) ''/p/index.d.ts'' ''export {}'') =
       Some \<lparr> code = Some ''export {}'', source = None, program = None \<rparr>
   \<and> programs (ctx (snd (getModule demoHost (demoState [''/p/index.d.ts''] [])
        ''/p/index.d.ts'' ''export {}''))) = []
   \<and> programs (ctx (runTransforms demoHost (demoState [''/p/index.d.ts''] [])
        [(''export {}'', ''/p/index.d.ts''), (''export const b = 1'', ''/p/b.ts''),
         (''{}'', ''/p/missing.json'')])) = []
   \<and> JSON_EXTENSIONS_test demoHost ''/p/data.json''
   \<and> \<not> DTS_EXTENSIONS_test demoHost ''/p/data.json''
   \<and> fileExists demoHost ''/p/data.json''
   \<and> transform demoHost (demoState [''/p/index.d.ts''] []) ''{}'' ''/p/data.json'' =
       generateDts demoHost (demoState [''/p/index.d.ts''] []) ''{}'' ''/p/data.json''
   \<and> programs (ctx (snd (transform demoHost (demoState [''/p/index.d.ts''] []) ''{}''
        ''/p/data.json''))) = [mkProgram [''/p/data.json''] [(''/p/data.json'', False)] False]"
proof -
  let ?s = "demoState [''/p/index.d.ts''] []"
  let ?reqs = "[(''export {}'', ''/p/index.d.ts''), (''export const b = 1'', ''/p/b.ts''),
         (''{}'', ''/p/missing.json'')]"
  have p: "programs (ctx ?s) = []"
    by (simp add: demoState_def)
  have d: "DTS_EXTENSIONS_test demoHost ''/p/index.d.ts''"
    by (simp add: demoHost_def endsWith_def)
  have k1: "keepsPoolEmpty demoHost ''export {}'' ''/p/index.d.ts''"
    by (simp add: keepsPoolEmpty_def demoHost_def endsWith_def TS_EXTENSIONS_test_def)
  have k2: "keepsPoolEmpty demoHost ''export const b = 1'' ''/p/b.ts''"
    by (simp add: keepsPoolEmpty_def demoHost_def endsWith_def TS_EXTENSIONS_test_def)
  have k3: "keepsPoolEmpty demoHost ''{}'' ''/p/missing.json''"
    by (simp add: keepsPoolEmpty_def demoHost_def endsWith_def TS_EXTENSIONS_test_def)
  have j: "JSON_EXTENSIONS_test demoHost ''/p/data.json''"
    and nd: "\<not> DTS_EXTENSIONS_test demoHost ''/p/data.json''"
    and ex: "fileExists demoHost ''/p/data.json''"
    by (simp_all add: demoHost_def endsWith_def)
  have cp: "createProgram demoHost ''/p/data.json'' (compilerOptions (resolvedOptions (ctx ?s)))
              (tsconfig (resolvedOptions (ctx ?s))) =
            mkProgram [''/p/data.json''] [(''/p/data.json'', False)] False"
    by (simp add: demoHost_def)
  have all: "\<forall>(raw', ident)\<in>set ?reqs. keepsPoolEmpty demoHost raw' ident"
    using k1 k2 k3 by simp
  note A = zero_program_fast_path [OF p, of demoHost "''/p/index.d.ts''" "''export {}''" ?reqs
      "''/p/data.json''"]
  note B = zero_program_fast_path [OF p, of demoHost "''/p/index.d.ts''" "''{}''" ?reqs
      "''/p/data.json''"]
  from A d have 1: "fst (getModule demoHost ?s ''/p/index.d.ts'' ''export {}'') =
       Some \<lparr> code = Some ''export {}'', source = None, program = None \<rparr>"
    and 2: "programs (ctx (snd (getModule demoHost ?s ''/p/index.d.ts'' ''export {}''))) = []"
    by blast+
  from A all have 3: "programs (ctx (runTransforms demoHost ?s ?reqs)) = []"
    by blast
  from B j nd ex have 4: "transform demoHost ?s ''{}'' ''/p/data.json'' =
       generateDts demoHost ?s ''{}'' ''/p/data.json''"
    and 5: "programs (ctx (snd (transform demoHost ?s ''{}'' ''/p/data.json''))) =
       [createProgram demoHost ''/p/data.json'' (compilerOptions (resolvedOptions (ctx ?s)))
              (tsconfig (resolvedOptions (ctx ?s)))]"
    by blast+
  from 5 cp have 6: "programs (ctx (snd (transform demoHost ?s ''{}'' ''/p/data.json''))) =
       [mkProgram [''/p/data.json''] [(''/p/data.json'', False)] False]"
    by (simp only:)
  from p d k1 k2 k3 1 2 3 j nd ex 4 6 show ?thesis by blast
qed

section \<open>Fallback ordering\<close>

text \<open>
  Claim C5. For a source file, \<open>transform\<close> first resolves the derived declaration name.
  If that request returns \<^verbatim>\<open>null\<close>, the call is \<^verbatim>\<open>generateDts\<close> on the file's own
  name, run in the state the first request left, and \<open>getModule\<close> has been called twice.
  If it returns a module and the inner transform answers its text with a value, the call
  returns that value in the state the first request left, and \<open>getModule\<close> has been
  called once: \<^verbatim>\<open>generateDts\<close> did not run.
\<close>

theorem fallback_ordering:
  assumes "isSourceId h ident"
    and "getModule h s (getDeclarationId h ident) raw = (r, s1)"
  shows "(r = None \<longrightarrow>
            transform h s raw ident = generateDts h s1 raw ident
            \<and> totalGetModuleCalls (counters (snd (transform h s raw ident))) =
                totalGetModuleCalls (counters s) + 2)
       \<and> (\<forall>m. r = Some m
              \<and> transformPlugin_transform h (code m) (getDeclarationId h ident) \<noteq> None \<longrightarrow>
            transform h s raw ident =
              (\<lparr> completion =
                   Return (transformPlugin_transform h (code m) (getDeclarationId h ident)),
                 addWatchFile = watchFiles h ident m, console_error = [] \<rparr>, s1)
            \<and> totalGetModuleCalls (counters (snd (transform h s raw ident))) =
                totalGetModuleCalls (counters s) + 1)"
proof -
  have s1: "s1 = snd (getModule h s (getDeclarationId h ident) raw)"
    using assms(2) by simp
  have c1: "totalGetModuleCalls (counters s1) = totalGetModuleCalls (counters s) + 1"
    unfolding s1 by (rule getModule_calls)
  show ?thesis
  proof (intro conjI impI allI)
    assume "r = None"
    with assms have t: "transform h s raw ident = generateDts h s1 raw ident"
      by (intro transform_source_notfound) simp_all
    then show "transform h s raw ident = generateDts h s1 raw ident" .
    show "totalGetModuleCalls (counters (snd (transform h s raw ident))) =
                totalGetModuleCalls (counters s) + 2"
      by (simp add: t generateDts_state getModule_calls c1)
  next
    fix m
    assume a: "r = Some m
              \<and> transformPlugin_transform h (code m) (getDeclarationId h ident) \<noteq> None"
    with assms have t: "transform h s raw ident =
              (\<lparr> completion =
                   Return (transformPlugin_transform h (code m) (getDeclarationId h ident)),
                 addWatchFile = watchFiles h ident m, console_error = [] \<rparr>, s1)"
      by (intro transform_source_found) simp_all
    then show "transform h s raw ident =
              (\<lparr> completion =
                   Return (transformPlugin_transform h (code m) (getDeclarationId h ident)),
                 addWatchFile = watchFiles h ident m, console_error = [] \<rparr>, s1)" .
    show "totalGetModuleCalls (counters (snd (transform h s raw ident))) =
                totalGetModuleCalls (counters s) + 1"
      by (simp add: t c1)
  qed
qed

text \<open>\<^verbatim>\<open>/p/a.ts\<close> with a pool that holds its program (the declaration name is not
  found, the declaration is generated), and with an empty pool (the raw text is
  forwarded).\<close>

theorem fallback_ordering_witness:
  "isSourceId demoHost ''/p/a.ts''
   \<and> fst (getModule demoHost (demoState [''/p/a.ts''] [mkProgram [''/p/a.ts''] [(''/p/a.ts'', False)] False])
        (getDeclarationId demoHost ''/p/a.ts'') ''export const a = 1'') = None
   \<and> totalGetModuleCalls (counters (snd (transform demoHost
        (demoState [''/p/a.ts''] [mkProgram [''/p/a.ts''] [(''/p/a.ts'', False)] False])
        ''export const a = 1'' ''/p/a.ts''))) = 2
   \<and> completion (fst (transform demoHost
        (demoState [''/p/a.ts''] [mkProgram [''/p/a.ts''] [(''/p/a.ts'', False)] False])
        ''export const a = 1'' ''/p/a.ts'')) =
       Return (Some (Some ''declare // /p/a.ts'', ''/p/a.d.ts''))
   \<and> fst (getModule demoHost (demoState [''/p/a.ts''] [])
        (getDeclarationId demoHost ''/p/a.ts'') ''export const a = 1'') =
       Some \<lparr> code = Some ''export const a = 1'', source = None, program = None \<rparr>
   \<and> totalGetModuleCalls (counters (snd (transform demoHost (demoState [''/p/a.ts''] [])
        ''export const a = 1'' ''/p/a.ts''))) = 1
   \<and> completion (fst (transform demoHost (demoState [''/p/a.ts''] [])
        ''export const a = 1'' ''/p/a.ts'')) =
       Return (Some (Some ''export const a = 1'', ''/p/a.d.ts''))"
proof -
  let ?pa = "mkProgram [''/p/a.ts''] [(''/p/a.ts'', False)] False"
  let ?s = "demoState [''/p/a.ts''] [?pa]"
  let ?z = "demoState [''/p/a.ts''] []"
  let ?raw = "''export const a = 1''"
  let ?d = "getDeclarationId demoHost ''/p/a.ts''"
  have src: "isSourceId demoHost ''/p/a.ts''" by (simp add: demo_eval)
  have d: "?d = ''/p/a.d.ts''" by (simp add: demoHost_def endsWith_def)
  have c0: "totalGetModuleCalls (counters ?s) = 0" "totalGetModuleCalls (counters ?z) = 0"
    by (simp_all add: demoState_def)
  have g1: "fst (getModule demoHost ?s ?d ?raw) = None"
    by (simp add: demo_eval)
  have g2: "fst (getModule demoHost ?z ?d ?raw) =
      Some \<lparr> code = Some ?raw, source = None, program = None \<rparr>"
    by (simp add: demo_eval)
  have b: "transformPlugin_transform demoHost (Some ?raw) ?d = Some (Some ?raw, ''/p/a.d.ts'')"
    by (simp add: demoHost_def endsWith_def)
  note A = fallback_ordering [OF src, of ?s ?raw, OF prod.collapse [symmetric]]
  note B = fallback_ordering [OF src, of ?z ?raw, OF prod.collapse [symmetric]]
  from A g1 have a1: "transform demoHost ?s ?raw ''/p/a.ts'' =
        generateDts demoHost (snd (getModule demoHost ?s ?d ?raw)) ?raw ''/p/a.ts''"
    and a2: "totalGetModuleCalls (counters (snd (transform demoHost ?s ?raw ''/p/a.ts''))) =
        totalGetModuleCalls (counters ?s) + 2"
    by blast+
  have a3: "completion (fst (generateDts demoHost (snd (getModule demoHost ?s ?d ?raw)) ?raw ''/p/a.ts'')) =
       Return (Some (Some ''declare // /p/a.ts'', ''/p/a.d.ts''))"
    by (simp add: demo_eval generateDts_def)
  from B g2 b have b1: "transform demoHost ?z ?raw ''/p/a.ts'' =
          (\<lparr> completion = Return (Some (Some ?raw, ''/p/a.d.ts'')),
             addWatchFile = watchFiles demoHost ''/p/a.ts''
               \<lparr> code = Some ?raw, source = None, program = None \<rparr>,
             console_error = [] \<rparr>, snd (getModule demoHost ?z ?d ?raw))"
    and b2: "totalGetModuleCalls (counters (snd (transform demoHost ?z ?raw ''/p/a.ts''))) =
        totalGetModuleCalls (counters ?z) + 1"
    by (metis option.distinct(1) ResolvedModule.select_convs(1))+
  from src g1 a1 a2 a3 g2 b1 b2 c0 show ?thesis by simp
qed

section \<open>Compilation errors\<close>

text \<open>
  Claim C6. Let the resolution of the requested file return a module with a source file
  and a program. If the program's emit is skipped and reports diagnostics of category
  error, \<^verbatim>\<open>generateDts\<close> prints exactly those diagnostics, formatted, to
  \<^verbatim>\<open>console.error\<close> and throws through \<^verbatim>\<open>this.error\<close>; a transform request
  that reaches it, for a JSON file or for a source file whose derived declaration name
  is not found, then completes with the error and returns no declaration. Otherwise
  \<^verbatim>\<open>generateDts\<close> returns and prints nothing.
\<close>

theorem emit_errors_are_fatal:
  assumes "getModule h s ident raw = (Some m, s')" "source m = Some src" "program m = Some p"
    and "errors = filter (\<lambda>diag. category diag = CatError) (diagnostics (emit p src))"
  shows "(emitSkipped (emit p src) \<and> errors \<noteq> [] \<longrightarrow>
            generateDts h s raw ident =
              (\<lparr> completion = Throw ''Failed to compile. Check the logs above.'',
                 addWatchFile = watchFiles h ident m,
                 console_error = [formatDiagnostics h errors] \<rparr>, s')
            \<and> (JSON_EXTENSIONS_test h ident \<and> \<not> DTS_EXTENSIONS_test h ident \<longrightarrow>
                 completion (fst (transform h s raw ident)) =
                   Throw ''Failed to compile. Check the logs above.'')
            \<and> (\<forall>s0. isSourceId h ident
                     \<and> getModule h s0 (getDeclarationId h ident) raw = (None, s) \<longrightarrow>
                 completion (fst (transform h s0 raw ident)) =
                   Throw ''Failed to compile. Check the logs above.''
                 \<and> console_error (fst (transform h s0 raw ident)) =
                     [formatDiagnostics h errors]))
       \<and> (\<not> (emitSkipped (emit p src) \<and> errors \<noteq> []) \<longrightarrow>
            (\<exists>generated. completion (fst (generateDts h s raw ident)) = Return generated)
            \<and> console_error (fst (generateDts h s raw ident)) = [])"
proof (intro conjI impI allI)
  assume e: "emitSkipped (emit p src) \<and> errors \<noteq> []"
  with assms show g: "generateDts h s raw ident =
              (\<lparr> completion = Throw ''Failed to compile. Check the logs above.'',
                 addWatchFile = watchFiles h ident m,
                 console_error = [formatDiagnostics h errors] \<rparr>, s')"
    by (simp add: generateDts_def Let_def)
  {
    assume "JSON_EXTENSIONS_test h ident \<and> \<not> DTS_EXTENSIONS_test h ident"
    then have "transform h s raw ident = generateDts h s raw ident"
      by (auto simp add: transform_def)
    with g show "completion (fst (transform h s raw ident)) =
                   Throw ''Failed to compile. Check the logs above.''"
      by simp
  }
  {
    fix s0
    assume "isSourceId h ident \<and> getModule h s0 (getDeclarationId h ident) raw = (None, s)"
    then have "transform h s0 raw ident = generateDts h s raw ident"
      by (intro transform_source_notfound) simp_all
    with g show "completion (fst (transform h s0 raw ident)) =
                   Throw ''Failed to compile. Check the logs above.''"
      and "console_error (fst (transform h s0 raw ident)) = [formatDiagnostics h errors]"
      by simp_all
  }
next
  assume "\<not> (emitSkipped (emit p src) \<and> errors \<noteq> [])"
  with assms show "\<exists>generated. completion (fst (generateDts h s raw ident)) = Return generated"
    and "console_error (fst (generateDts h s raw ident)) = []"
    by (auto simp add: generateDts_def Let_def)
qed

text \<open>\<^verbatim>\<open>/p/data.json\<close> and \<^verbatim>\<open>/p/a.ts\<close> in programs whose emit is skipped with
  a warning and an error, and \<^verbatim>\<open>/p/data.json\<close> in one whose emit succeeds.\<close>

theorem emit_errors_are_fatal_witness:
  "completion (fst (generateDts demoHost
       (demoState [''/p/a.ts''] [mkProgram [''/p/data.json''] [(''/p/data.json'', False)] True])
       ''{}'' ''/p/data.json'')) = Throw ''Failed to compile. Check the logs above.''
   \<and> console_error (fst (generateDts demoHost
       (demoState [''/p/a.ts''] [mkProgram [''/p/data.json''] [(''/p/data.json'', False)] True])
       ''{}'' ''/p/data.json'')) = [''TS2322'']
   \<and> completion (fst (transform demoHost
       (demoState [''/p/a.ts''] [mkProgram [''/p/data.json''] [(''/p/data.json'', False)] True])
       ''{}'' ''/p/data.json'')) = Throw ''Failed to compile. Check the logs above.''
   \<and> completion (fst (transform demoHost
       (demoState [''/p/a.ts''] [mkProgram [''/p/a.ts''] [(''/p/a.ts'', False)] True])
       ''export const a: string = 1'' ''/p/a.ts'')) = Throw ''Failed to compile. Check the logs above.''
   \<and> console_error (fst (transform demoHost
       (demoState [''/p/a.ts''] [mkProgram [''/p/a.ts''] [(''/p/a.ts'', False)] True])
       ''export const a: string = 1'' ''/p/a.ts'')) = [''TS2322'']
   \<and> completion (fst (generateDts demoHost
       (demoState [''/p/a.ts''] [mkProgram [''/p/data.json''] [(''/p/data.json'', False)] False])
       ''{}'' ''/p/data.json'')) = Return (Some (Some ''declare // /p/data.json'', ''/p/data.d.ts''))
   \<and> console_error (fst (generateDts demoHost
       (demoState [''/p/a.ts''] [mkProgram [''/p/data.json''] [(''/p/data.json'', False)] False])
       ''{}'' ''/p/data.json'')) = []"
proof -
  let ?bad = "mkProgram [''/p/data.json''] [(''/p/data.json'', False)] True"
  let ?good = "mkProgram [''/p/data.json''] [(''/p/data.json'', False)] False"
  let ?sf = "\<lparr> fileName = ''/p/data.json'', getFullText = ''// /p/data.json'' \<rparr>"
  let ?sb = "demoState [''/p/a.ts''] [?bad]"
  let ?sg = "demoState [''/p/a.ts''] [?good]"
  let ?bada = "mkProgram [''/p/a.ts''] [(''/p/a.ts'', False)] True"
  let ?sa = "\<lparr> fileName = ''/p/a.ts'', getFullText = ''// /p/a.ts'' \<rparr>"
  let ?s0 = "demoState [''/p/a.ts''] [?bada]"
  let ?raw = "''export const a: string = 1''"
  let ?s1 = "snd (getModule demoHost ?s0 (getDeclarationId demoHost ''/p/a.ts'') ?raw)"
  have gb: "getModule demoHost ?sb ''/p/data.json'' ''{}'' =
      (Some \<lparr> code = Some ''// /p/data.json'', source = Some ?sf, program = Some ?bad \<rparr>,
       snd (getModule demoHost ?sb ''/p/data.json'' ''{}''))"
    by (simp add: demo_eval)
  have gg: "getModule demoHost ?sg ''/p/data.json'' ''{}'' =
      (Some \<lparr> code = Some ''// /p/data.json'', source = Some ?sf, program = Some ?good \<rparr>,
       snd (getModule demoHost ?sg ''/p/data.json'' ''{}''))"
    by (simp add: demo_eval)
  have g0: "getModule demoHost ?s0 (getDeclarationId demoHost ''/p/a.ts'') ?raw = (None, ?s1)"
    by (simp add: demo_eval)
  have ga: "getModule demoHost ?s1 ''/p/a.ts'' ?raw =
      (Some \<lparr> code = Some ''// /p/a.ts'', source = Some ?sa, program = Some ?bada \<rparr>,
       snd (getModule demoHost ?s1 ''/p/a.ts'' ?raw))"
    by (simp add: demo_eval)
  have src: "isSourceId demoHost ''/p/a.ts''" by (simp add: demo_eval)
  have eb: "emit ?bad ?sf = \<lparr> emitSkipped = True,
                            diagnostics = [\<lparr> category = CatWarning, messageText = ''unused'' \<rparr>,
                                           \<lparr> category = CatError, messageText = ''TS2322'' \<rparr>],
                            written = [] \<rparr>"
    and ea: "emit ?bada ?sa = \<lparr> emitSkipped = True,
                            diagnostics = [\<lparr> category = CatWarning, messageText = ''unused'' \<rparr>,
                                           \<lparr> category = CatError, messageText = ''TS2322'' \<rparr>],
                            written = [] \<rparr>"
    by (simp_all add: mkProgram_def)
  have eg: "emit ?good ?sf = \<lparr> emitSkipped = False, diagnostics = [],
                            written = [''declare // /p/data.json''] \<rparr>"
    by (simp add: mkProgram_def)
  have ext: "JSON_EXTENSIONS_test demoHost ''/p/data.json''"
    "\<not> DTS_EXTENSIONS_test demoHost ''/p/data.json''"
    by (simp_all add: demoHost_def endsWith_def)
  have fmt: "formatDiagnostics demoHost [\<lparr> category = CatError, messageText = ''TS2322'' \<rparr>] = ''TS2322''"
    by (simp add: demoHost_def)
  from emit_errors_are_fatal [OF gb _ _ refl, of ?sf ?bad] eb ext fmt
  have 1: "completion (fst (generateDts demoHost ?sb ''{}'' ''/p/data.json'')) =
          Throw ''Failed to compile. Check the logs above.''"
    and 2: "console_error (fst (generateDts demoHost ?sb ''{}'' ''/p/data.json'')) = [''TS2322'']"
    and 3: "completion (fst (transform demoHost ?sb ''{}'' ''/p/data.json'')) =
          Throw ''Failed to compile. Check the logs above.''"
    by simp_all
  from emit_errors_are_fatal [OF ga _ _ refl, of ?sa ?bada] ea src g0 fmt
  have 4: "completion (fst (transform demoHost ?s0 ?raw ''/p/a.ts'')) =
          Throw ''Failed to compile. Check the logs above.''"
    and 5: "console_error (fst (transform demoHost ?s0 ?raw ''/p/a.ts'')) = [''TS2322'']"
    by simp_all
  from emit_errors_are_fatal [OF gg _ _ refl, of ?sf ?good] eg
  have 6: "console_error (fst (generateDts demoHost ?sg ''{}'' ''/p/data.json'')) = []"
    by simp_all
  have 7: "completion (fst (generateDts demoHost ?sg ''{}'' ''/p/data.json'')) =
      Return (Some (Some ''declare // /p/data.json'', ''/p/data.d.ts''))"
    by (simp add: demo_eval generateDts_def)
  from 1 2 3 4 5 6 7 show ?thesis by blast
qed

section \<open>The classification policy\<close>

text \<open>
  Claim C7 as stated fails. The package \<^verbatim>\<open>lodash\<close> is listed in
  \<^verbatim>\<open>includeExternal\<close> and the import of \<^verbatim>\<open>lodash\<close> resolves to an external module,
  but the compiler reports no package id for it: the guard
  \<^verbatim>\<open>resolvedModule.packageId\<close> of the first test fails, and the import is marked
  external instead of resolved to its file.
\<close>

theorem force_include_counterexample:
  "resolveModuleName noPackageIdHost ''lodash'' ''/p/a.ts'' [] =
     Some \<lparr> resolvedFileName = ''/p/node_modules/lodash/index.d.ts'',
            isExternalLibraryImport = True, packageId_name = None \<rparr>
   \<and> ''lodash'' \<in> set (includeExternal (resolvedOptions (ctx lodashListedState)))
   \<and> fst (resolveId noPackageIdHost lodashListedState ''lodash'' (Some ''/p/a.ts'')) =
       ExternalId ''lodash''
   \<and> fst (resolveId noPackageIdHost lodashListedState ''lodash'' (Some ''/p/a.ts'')) \<noteq>
       ResolvedId (path_resolve noPackageIdHost [''/p/node_modules/lodash/index.d.ts''])"
  by (simp add: noPackageIdHost_def demoHost_def lodashListedState_def resolveId_def slashes_def
      resolvedCompilerOptions_def Let_def)

text \<open>
  Claim C7, amended. For an import with an importer, \<open>resolveId\<close> leaves the state alone
  and answers in this order: nothing when the compiler's module resolution fails; the
  absolute file name when the module is external and the compiler reports a package id
  for it whose name is listed for inclusion; otherwise the import marked external when
  the option \<^verbatim>\<open>respectExternal\<close> is off and the module is external, which is the
  answer for every external module without a package id; otherwise the absolute file
  name.
\<close>

theorem import_classifier_policy:
  assumes "importer \<noteq> []"
    and "opts = resolvedOptions (ctx s)"
    and "resolution = resolveModuleName h src (slashes importer)
           (resolvedCompilerOptions h opts src (slashes importer))"
  shows "(resolution = None \<longrightarrow> resolveId h s src (Some importer) = (Unresolved, s))
       \<and> (\<forall>r. resolution = Some r \<and> isExternalLibraryImport r \<and> packageIdListed opts r \<longrightarrow>
            resolveId h s src (Some importer) =
              (ResolvedId (path_resolve h [resolvedFileName r]), s))
       \<and> (\<forall>r. resolution = Some r \<and> \<not> (isExternalLibraryImport r \<and> packageIdListed opts r)
              \<and> \<not> respectExternal opts \<and> isExternalLibraryImport r \<longrightarrow>
            resolveId h s src (Some importer) = (ExternalId src, s))
       \<and> (\<forall>r. resolution = Some r \<and> isExternalLibraryImport r \<and> packageId_name r = None
              \<and> \<not> respectExternal opts \<longrightarrow>
            resolveId h s src (Some importer) = (ExternalId src, s))
       \<and> (\<forall>r. resolution = Some r \<and> \<not> (isExternalLibraryImport r \<and> packageIdListed opts r)
              \<and> \<not> (\<not> respectExternal opts \<and> isExternalLibraryImport r) \<longrightarrow>
            resolveId h s src (Some importer) =
              (ResolvedId (path_resolve h [resolvedFileName r]), s))"
  using assms
  by (simp add: resolveId_def packageIdListed_def Let_def)

text \<open>The listed package \<^verbatim>\<open>type-fest\<close>, the unlisted package \<^verbatim>\<open>lodash\<close>, a
  local module imported from an importer written with a backslash, a module that does
  not resolve, and the listed package \<^verbatim>\<open>lodash\<close> without a package id.\<close>

theorem import_classifier_policy_witness:
  "fst (resolveId demoHost (demoState [''/p/a.ts''] []) ''type-fest'' (Some ''/p/a.ts'')) =
     ResolvedId ''/p/node_modules/type-fest/index.d.ts''
   \<and> fst (resolveId demoHost (demoState [''/p/a.ts''] []) ''lodash'' (Some ''/p/a.ts'')) =
     ExternalId ''lodash''
   \<and> fst (resolveId demoHost (demoState [''/p/a.ts''] []) ''./b''
        (Some (''/p'' @ CHR 0x5C # ''a.ts''))) =
     ResolvedId ''/p/b.ts''
   \<and> fst (resolveId demoHost (demoState [''/p/a.ts''] []) ''./missing'' (Some ''/p/a.ts'')) =
     Unresolved
   \<and> fst (resolveId noPackageIdHost lodashListedState ''lodash'' (Some ''/p/a.ts'')) =
     ExternalId ''lodash''"
proof -
  let ?s = "demoState [''/p/a.ts''] []"
  let ?opts = "resolvedOptions (ctx ?s)"
  have opts: "?opts = \<lparr> respectExternal = False, includeExternal = [''type-fest''],
                          compilerOptions = [], tsconfig = None \<rparr>"
    by (simp add: demoState_def)
  have r: "\<And>src imp co. resolveModuleName demoHost src imp co =
            (if src = ''type-fest''
            then Some \<lparr> resolvedFileName = ''/p/node_modules/type-fest/index.d.ts'',
                        isExternalLibraryImport = True, packageId_name = Some ''type-fest'' \<rparr>
            else if src = ''lodash''
            then Some \<lparr> resolvedFileName = ''/p/node_modules/lodash/index.d.ts'',
                        isExternalLibraryImport = True, packageId_name = Some ''lodash'' \<rparr>
            else if src = ''./b'' \<and> imp = ''/p/a.ts''
            then Some \<lparr> resolvedFileName = ''/p/b.ts'',
                        isExternalLibraryImport = False, packageId_name = None \<rparr>
            else None)"
    and pr: "\<And>x. path_resolve demoHost [x] = x"
    by (simp_all add: demoHost_def)
  have 1: "resolveId demoHost ?s ''type-fest'' (Some ''/p/a.ts'') =
      (ResolvedId ''/p/node_modules/type-fest/index.d.ts'', ?s)"
    using import_classifier_policy [of "''/p/a.ts''" ?opts ?s _ demoHost "''type-fest''", OF _ refl refl]
    by (simp add: r pr packageIdListed_def opts)
  have 2: "resolveId demoHost ?s ''lodash'' (Some ''/p/a.ts'') = (ExternalId ''lodash'', ?s)"
    using import_classifier_policy [of "''/p/a.ts''" ?opts ?s _ demoHost "''lodash''", OF _ refl refl]
    by (simp add: r pr packageIdListed_def opts)
  have 3: "resolveId demoHost ?s ''./b'' (Some (''/p'' @ CHR 0x5C # ''a.ts'')) =
      (ResolvedId ''/p/b.ts'', ?s)"
    using import_classifier_policy [of "''/p'' @ CHR 0x5C # ''a.ts''" ?opts ?s _ demoHost "''./b''",
        OF _ refl refl]
    by (simp add: r pr packageIdListed_def opts slashes_def)
  have 4: "resolveId demoHost ?s ''./missing'' (Some ''/p/a.ts'') = (Unresolved, ?s)"
    using import_classifier_policy [of "''/p/a.ts''" ?opts ?s _ demoHost "''./missing''", OF _ refl refl]
    by (simp add: r pr packageIdListed_def opts)
  have 5: "resolveId noPackageIdHost lodashListedState ''lodash'' (Some ''/p/a.ts'') =
      (ExternalId ''lodash'', lodashListedState)"
    using import_classifier_policy [of "''/p/a.ts''" "resolvedOptions (ctx lodashListedState)"
        lodashListedState _ noPackageIdHost "''lodash''", OF _ refl refl]
    by (simp add: noPackageIdHost_def demoHost_def lodashListedState_def packageIdListed_def)
  from 1 2 3 4 5 show ?thesis by simp
qed

section \<open>Not found\<close>

text \<open>
  Claim C8. \<open>getModule\<close> returns for every state, file name and raw text, and its result
  is \<^verbatim>\<open>null\<close> exactly when the zero-program fast path does not apply, the search
  matches no unit and the file is not on disk.
\<close>

theorem getModule_notfound_iff:
  "(\<exists>r s'. getModule h s f raw = (r, s')) \<and>
   (fst (getModule h s f raw) = None \<longleftrightarrow>
      \<not> (programs (ctx s) = [] \<and> DTS_EXTENSIONS_test h f)
      \<and> \<not> list_ex (findCallback (f \<in> set (entries (ctx s))) f) (programs (ctx s))
      \<and> \<not> fileExists h f)"
proof -
  have ex: "\<not> list_ex P xs \<longleftrightarrow> find P xs = None" for P :: "program \<Rightarrow> bool" and xs
    by (auto simp add: find_None_iff list_ex_iff)
  show ?thesis
    by (cases rule: getModule_cases [of s h f])
      (simp_all add: ex getModule_zero getModule_existing getModule_external
        getModule_create getModule_notfound)
qed

text \<open>\<^verbatim>\<open>/p/gone.ts\<close> is in no program and not on disk.\<close>

theorem getModule_notfound_iff_witness:
  "fst (getModule demoHost (demoState [''/p/a.ts''] [mkProgram [''/p/a.ts''] [(''/p/a.ts'', False)] False])
        ''/p/gone.ts'' ''x'') = None"
  using getModule_notfound_iff [of demoHost
      "demoState [''/p/a.ts''] [mkProgram [''/p/a.ts''] [(''/p/a.ts'', False)] False]"
      "''/p/gone.ts''" "''x''"]
  by (simp add: demoHost_def demoState_def mkProgram_def endsWith_def findCallback_def)

section \<open>Idempotence of transform\<close>

text \<open>A second request for the same file has the same result as the first, whether the
  first was served by the pool, created a program that serves the file, or created one
  that does not (then the second request creates it again).\<close>

lemma someCallback_externalMember: "someCallback f p = externalMember p f"
  by (simp add: someCallback_def externalMember_def)

lemma getModule_unchanged_again:
  assumes "ctx (snd (getModule h s f raw)) = ctx s"
  shows "fst (getModule h (snd (getModule h s f raw)) f raw) = fst (getModule h s f raw)"
  using getModule_cong [OF assms, of h f raw] by simp

lemma getModule_again:
  assumes "ownFileNotExternal h (ctx s) f"
  shows "fst (getModule h (snd (getModule h s f raw)) f raw) = fst (getModule h s f raw)"
proof (cases rule: getModule_cases [of s h f])
  case zero
  then show ?thesis by (intro getModule_unchanged_again) (simp add: getModule_zero)
next
  case (existing p)
  then show ?thesis by (intro getModule_unchanged_again) (simp add: getModule_existing)
next
  case external
  then show ?thesis by (intro getModule_unchanged_again) (simp add: getModule_external)
next
  case create
  let ?p = "freshProgram h (ctx s) f"
  let ?s' = "s\<lparr> counters := leave (enter (counters s) f),
         ctx := (ctx s)\<lparr> programs := programs (ctx s) @ [?p] \<rparr> \<rparr>"
  let ?m = "\<lparr> code = map_option getFullText (getSourceFile ?p f), source = getSourceFile ?p f,
              program = Some ?p \<rparr>"
  have first: "getModule h s f raw = (Some ?m, ?s')"
    using create by (intro getModule_create) (simp_all add: freshProgram_def)
  show ?thesis
  proof (cases "findCallback (f \<in> set (entries (ctx s))) f ?p")
    case True
    with create have
      "find (findCallback (f \<in> set (entries (ctx ?s'))) f) (programs (ctx ?s')) = Some ?p"
      by (simp add: find_append_None)
    from getModule_existing [OF this, of h raw] first show ?thesis by simp
  next
    case False
    with assms have ne: "\<not> someCallback f ?p"
      by (simp add: ownFileNotExternal_def someCallback_externalMember split: if_splits)
    from create False have f': "find (findCallback (f \<in> set (entries (ctx ?s'))) f) (programs (ctx ?s')) = None"
      by (simp add: find_append_None)
    have z': "\<not> (programs (ctx ?s') = [] \<and> DTS_EXTENSIONS_test h f)" by simp
    have e': "\<not> (programs (ctx ?s') \<noteq> [] \<and> DTS_EXTENSIONS_test h f
                 \<and> list_ex (someCallback f) (programs (ctx ?s')))"
      using create ne by auto
    have p': "?p = createProgram h f (compilerOptions (resolvedOptions (ctx ?s')))
                     (tsconfig (resolvedOptions (ctx ?s')))"
      by (simp add: freshProgram_def)
    from getModule_create [OF z' f' create(3) e' p', of raw] first show ?thesis by simp
  qed
next
  case notfound
  then show ?thesis by (intro getModule_unchanged_again) (simp add: getModule_notfound)
qed

text \<open>A file that was not found stays not found after a resolution of another file.\<close>

lemma notfound_persists:
  assumes nf: "fst (getModule h s d raw) = None"
    and om: "omitsMissingFile h (ctx s) f d"
    and t: "ctx t = ctx (snd (getModule h s f raw'))"
  shows "fst (getModule h t d raw) = None \<and> ctx (snd (getModule h t d raw)) = ctx t"
proof -
  note D = getModule_notfound_D [OF nf]
  from om D(3) have np: "\<not> findCallback (d \<in> set (entries (ctx s))) d (freshProgram h (ctx s) f)"
    by (simp add: omitsMissingFile_def)
  have e: "entries (ctx t) = entries (ctx s)" by (simp add: t getModule_frame)
  from getModule_pool [of h s f raw'] have
    "programs (ctx t) = programs (ctx s) \<or> programs (ctx t) = programs (ctx s) @ [freshProgram h (ctx s) f]"
    by (simp add: t freshProgram_def)
  then have f: "find (findCallback (d \<in> set (entries (ctx t))) d) (programs (ctx t)) = None"
    and z: "\<not> (programs (ctx t) = [] \<and> DTS_EXTENSIONS_test h d)"
    using D np by (auto simp add: e find_append_None)
  from getModule_notfound [OF z f D(3)] show ?thesis by simp
qed

lemma handleDtsFile_again:
  assumes "ownFileNotExternal h (ctx s) ident"
  shows "fst (handleDtsFile h (snd (handleDtsFile h s raw ident)) raw ident) = fst (handleDtsFile h s raw ident)"
  using getModule_again [OF assms, of raw] by (simp add: handleDtsFile_fst)

lemma generateDts_again:
  assumes "ownFileNotExternal h (ctx s) ident"
  shows "fst (generateDts h (snd (generateDts h s raw ident)) raw ident) = fst (generateDts h s raw ident)"
  using getModule_again [OF assms, of raw]
  by (intro generateDts_cong) (simp add: generateDts_state)

lemma transform_source_again:
  assumes src: "isSourceId h ident"
    and own: "ownFileNotExternal h (ctx s) ident"
    and ownd: "ownFileNotExternal h (ctx s) (getDeclarationId h ident)"
    and om: "omitsMissingFile h (ctx s) ident (getDeclarationId h ident)"
    and nn: "\<forall>m. fst (getModule h s (getDeclarationId h ident) raw) = Some m \<longrightarrow>
               transformPlugin_transform h (code m) (getDeclarationId h ident) \<noteq> None"
  shows "fst (transform h (snd (transform h s raw ident)) raw ident) = fst (transform h s raw ident)"
proof -
  let ?d = "getDeclarationId h ident"
  obtain r s1 where g1: "getModule h s ?d raw = (r, s1)" by (cases "getModule h s ?d raw")
  show ?thesis
  proof (cases r)
    case (Some m)
    with nn g1 have b: "transformPlugin_transform h (code m) ?d \<noteq> None" by simp
    from g1 Some have g1': "getModule h s ?d raw = (Some m, s1)" by simp
    note t1 = transform_source_found [OF src g1' b]
    from getModule_again [OF ownd, of raw] g1'
    obtain s1' where g2: "getModule h s1 ?d raw = (Some m, s1')"
      by (cases "getModule h s1 ?d raw") simp
    note t2 = transform_source_found [OF src g2 b]
    show ?thesis by (simp add: t1 t2)
  next
    case None
    with g1 have g1': "getModule h s ?d raw = (None, s1)" by simp
    then have nf: "fst (getModule h s ?d raw) = None" by simp
    from getModule_notfound_ctx [OF nf] g1' have c1: "ctx s1 = ctx s" by simp
    note t1 = transform_source_notfound [OF src g1']
    let ?s2 = "snd (generateDts h s1 raw ident)"
    have s2: "ctx ?s2 = ctx (snd (getModule h s ident raw))"
      using getModule_cong [OF c1, of h ident raw] by (simp add: generateDts_state)
    from notfound_persists [OF nf om s2]
    obtain s3 where g3: "getModule h ?s2 ?d raw = (None, s3)" and c3: "ctx s3 = ctx ?s2"
      by (cases "getModule h ?s2 ?d raw") simp
    note t2 = transform_source_notfound [OF src g3]
    have "fst (generateDts h s3 raw ident) = fst (generateDts h ?s2 raw ident)"
      using getModule_cong [OF c3, of h ident raw] by (intro generateDts_cong) simp
    also have "\<dots> = fst (generateDts h s1 raw ident)"
      using own by (intro generateDts_again) (simp add: c1)
    finally show ?thesis by (simp add: t1 t2)
  qed
qed

text \<open>
  Claim C9. Calling \<open>transform\<close> twice in succession on the same file name and raw text
  gives the same completion, the same watch files and the same console output both
  times, also when the first call, or each of the two, created a program. It is assumed
  of the compiler that the program created for the requested file does not hold it as an
  external member without serving it, and for a source file also that the same holds of
  its derived declaration name, that the program created for the source file does not
  serve a declaration name that is not on disk, and that the inner transform answers the
  text of a found declaration with a value.
\<close>

theorem transform_idempotent:
  assumes "ownFileNotExternal h (ctx s) ident"
    and "isSourceId h ident \<Longrightarrow> ownFileNotExternal h (ctx s) (getDeclarationId h ident)"
    and "isSourceId h ident \<Longrightarrow> omitsMissingFile h (ctx s) ident (getDeclarationId h ident)"
    and "isSourceId h ident \<Longrightarrow>
           \<forall>m. fst (getModule h s (getDeclarationId h ident) raw) = Some m \<longrightarrow>
               transformPlugin_transform h (code m) (getDeclarationId h ident) \<noteq> None"
  shows "fst (transform h (snd (transform h s raw ident)) raw ident) = fst (transform h s raw ident)"
proof (cases "isSourceId h ident")
  case True
  with assms show ?thesis by (intro transform_source_again) simp_all
next
  case False
  show ?thesis
  proof (cases "\<not> TS_EXTENSIONS_test ident \<and> \<not> JSON_EXTENSIONS_test h ident")
    case True
    then show ?thesis by (simp add: transform_skip)
  next
    case skip: False
    show ?thesis
    proof (cases "DTS_EXTENSIONS_test h ident")
      case True
      with skip have "\<And>t. transform h t raw ident = handleDtsFile h t raw ident"
        by (intro transform_dts) auto
      with handleDtsFile_again [OF assms(1), of raw] show ?thesis by simp
    next
      case nd: False
      with skip False have "JSON_EXTENSIONS_test h ident" by (auto simp add: isSourceId_def)
      with nd have "\<And>t. transform h t raw ident = generateDts h t raw ident"
        by (intro transform_json)
      with generateDts_again [OF assms(1), of raw] show ?thesis by simp
    qed
  qed
qed

text \<open>\<^verbatim>\<open>/p/a.ts\<close> with a pool that holds only the program of \<^verbatim>\<open>/p/b.ts\<close>: the
  first call creates the program of \<^verbatim>\<open>/p/a.ts\<close>, the second is served by it. And
  \<^verbatim>\<open>/p/legacy.js\<close> on a host whose programs do not hold JavaScript files: each call
  creates a program, and both return the same.\<close>

theorem transform_idempotent_witness:
  "ownFileNotExternal demoHost
      (ctx (demoState [''/p/a.ts''] [mkProgram [''/p/b.ts''] [(''/p/b.ts'', False)] False])) ''/p/a.ts''
   \<and> isSourceId demoHost ''/p/a.ts''
   \<and> length (programs (ctx (snd (transform demoHost
        (demoState [''/p/a.ts''] [mkProgram [''/p/b.ts''] [(''/p/b.ts'', False)] False])
        ''export const a = 1'' ''/p/a.ts'')))) = 2
   \<and> fst (transform demoHost
        (demoState [''/p/a.ts''] [mkProgram [''/p/b.ts''] [(''/p/b.ts'', False)] False])
        ''export const a = 1'' ''/p/a.ts'') =
       \<lparr> completion = Return (Some (Some ''declare // /p/a.ts'', ''/p/a.d.ts'')),
         addWatchFile = [''/p/a.ts''], console_error = [] \<rparr>
   \<and> fst (transform demoHost
        (snd (transform demoHost
           (demoState [''/p/a.ts''] [mkProgram [''/p/b.ts''] [(''/p/b.ts'', False)] False])
           ''export const a = 1'' ''/p/a.ts''))
        ''export const a = 1'' ''/p/a.ts'') =
       \<lparr> completion = Return (Some (Some ''declare // /p/a.ts'', ''/p/a.d.ts'')),
         addWatchFile = [''/p/a.ts''], console_error = [] \<rparr>
   \<and> ownFileNotExternal legacyHost
      (ctx (demoState [''/p/a.ts''] [mkProgram [''/p/a.ts''] [(''/p/a.ts'', False)] False]))
      ''/p/legacy.js''
   \<and> isSourceId legacyHost ''/p/legacy.js''
   \<and> \<not> findCallback False ''/p/legacy.js'' (createProgram legacyHost ''/p/legacy.js'' [] None)
   \<and> length (programs (ctx (snd (transform legacyHost
        (demoState [''/p/a.ts''] [mkProgram [''/p/a.ts''] [(''/p/a.ts'', False)] False])
        ''module.exports = 1'' ''/p/legacy.js'')))) = 2
   \<and> length (programs (ctx (snd (transform legacyHost
        (snd (transform legacyHost
           (demoState [''/p/a.ts''] [mkProgram [''/p/a.ts''] [(''/p/a.ts'', False)] False])
           ''module.exports = 1'' ''/p/legacy.js''))
        ''module.exports = 1'' ''/p/legacy.js'')))) = 3
   \<and> fst (transform legacyHost
        (snd (transform legacyHost
           (demoState [''/p/a.ts''] [mkProgram [''/p/a.ts''] [(''/p/a.ts'', False)] False])
           ''module.exports = 1'' ''/p/legacy.js''))
        ''module.exports = 1'' ''/p/legacy.js'') =
      fst (transform legacyHost
        (demoState [''/p/a.ts''] [mkProgram [''/p/a.ts''] [(''/p/a.ts'', False)] False])
        ''module.exports = 1'' ''/p/legacy.js'')"
proof -
  let ?pb = "mkProgram [''/p/b.ts''] [(''/p/b.ts'', False)] False"
  let ?s = "demoState [''/p/a.ts''] [?pb]"
  let ?raw = "''export const a = 1''"
  have di: "getDeclarationId demoHost ''/p/a.ts'' = ''/p/a.d.ts''"
    by (simp add: demoHost_def endsWith_def)
  have src: "isSourceId demoHost ''/p/a.ts''" by (simp add: demo_eval)
  have own: "ownFileNotExternal demoHost (ctx ?s) ''/p/a.ts''"
    by (simp add: ownFileNotExternal_def externalMember_def freshProgram_def demo_eval)
  have ownd: "ownFileNotExternal demoHost (ctx ?s) (getDeclarationId demoHost ''/p/a.ts'')"
    by (simp add: di) (simp add: ownFileNotExternal_def externalMember_def freshProgram_def demo_eval)
  have om: "omitsMissingFile demoHost (ctx ?s) ''/p/a.ts'' (getDeclarationId demoHost ''/p/a.ts'')"
    by (simp add: di) (simp add: omitsMissingFile_def freshProgram_def demo_eval)
  have nn: "\<forall>m. fst (getModule demoHost ?s (getDeclarationId demoHost ''/p/a.ts'') ?raw) = Some m \<longrightarrow>
               transformPlugin_transform demoHost (code m) (getDeclarationId demoHost ''/p/a.ts'') \<noteq> None"
    by (simp add: demoHost_def)
  have first: "fst (transform demoHost ?s ?raw ''/p/a.ts'') =
       \<lparr> completion = Return (Some (Some ''declare // /p/a.ts'', ''/p/a.d.ts'')),
         addWatchFile = [''/p/a.ts''], console_error = [] \<rparr>"
    and grown: "length (programs (ctx (snd (transform demoHost ?s ?raw ''/p/a.ts'')))) = 2"
    by (simp_all add: demo_eval transform_def treatTsAsDts_def generateDts_def watchFiles_def
        returnNull_def)
  from transform_idempotent [OF own ownd om nn]
  have "fst (transform demoHost (snd (transform demoHost ?s ?raw ''/p/a.ts'')) ?raw ''/p/a.ts'') =
        fst (transform demoHost ?s ?raw ''/p/a.ts'')" .
  with first have second:
    "fst (transform demoHost (snd (transform demoHost ?s ?raw ''/p/a.ts'')) ?raw ''/p/a.ts'') =
        \<lparr> completion = Return (Some (Some ''declare // /p/a.ts'', ''/p/a.d.ts'')),
         addWatchFile = [''/p/a.ts''], console_error = [] \<rparr>"
    by (simp only:)
  let ?pa = "mkProgram [''/p/a.ts''] [(''/p/a.ts'', False)] False"
  let ?t = "demoState [''/p/a.ts''] [?pa]"
  let ?js = "''module.exports = 1''"
  have ldi: "getDeclarationId legacyHost ''/p/legacy.js'' = ''/p/legacy.d.ts''"
    by (simp add: legacyHost_def endsWith_def)
  have lsrc: "isSourceId legacyHost ''/p/legacy.js''"
    by (simp add: legacyHost_def demo_eval)
  have lown: "ownFileNotExternal legacyHost (ctx ?t) ''/p/legacy.js''"
    by (simp add: ownFileNotExternal_def externalMember_def freshProgram_def legacyHost_def demo_eval)
  have lownd: "ownFileNotExternal legacyHost (ctx ?t) (getDeclarationId legacyHost ''/p/legacy.js'')"
    by (simp add: ldi)
      (simp add: ownFileNotExternal_def externalMember_def freshProgram_def legacyHost_def demo_eval)
  have lom: "omitsMissingFile legacyHost (ctx ?t) ''/p/legacy.js''
      (getDeclarationId legacyHost ''/p/legacy.js'')"
    by (simp add: ldi) (simp add: omitsMissingFile_def freshProgram_def legacyHost_def demo_eval)
  have lnn: "\<forall>m. fst (getModule legacyHost ?t (getDeclarationId legacyHost ''/p/legacy.js'') ?js) = Some m \<longrightarrow>
               transformPlugin_transform legacyHost (code m)
                 (getDeclarationId legacyHost ''/p/legacy.js'') \<noteq> None"
    by (simp add: legacyHost_def demoHost_def)
  have unserved: "\<not> findCallback False ''/p/legacy.js'' (createProgram legacyHost ''/p/legacy.js'' [] None)"
    by (simp add: legacyHost_def demo_eval)
  have lg1: "length (programs (ctx (snd (transform legacyHost ?t ?js ''/p/legacy.js'')))) = 2"
    by (simp add: legacyHost_def demo_eval transform_def treatTsAsDts_def generateDts_def
        watchFiles_def returnNull_def)
  have lg2: "length (programs (ctx (snd (transform legacyHost
        (snd (transform legacyHost ?t ?js ''/p/legacy.js'')) ?js ''/p/legacy.js'')))) = 3"
    by (simp add: legacyHost_def demo_eval transform_def treatTsAsDts_def generateDts_def
        watchFiles_def returnNull_def)
  note lsame = transform_idempotent [OF lown lownd lom lnn]
  from own src grown first second lown lsrc unserved lg1 lg2 lsame show ?thesis by blast
qed

section \<open>The zero-program fast path does not look at the disk\<close>

text \<open>
  Claim C10. While the pool is empty, a request for a name that matches the declaration
  pattern returns the raw text whether or not a file of that name is on disk. So a
  transform request for a source file whose derived declaration name matches the
  pattern, and whose raw text the inner transform answers with a value, returns that
  value, keyed by the derived name, after a single call of \<open>getModule\<close> and with the pool
  still empty: \<^verbatim>\<open>generateDts\<close> is not reached.
\<close>

theorem zero_program_path_skips_disk:
  assumes "programs (ctx s) = []"
  shows "(DTS_EXTENSIONS_test h f \<longrightarrow>
            getModule h s f raw =
              (Some \<lparr> code = Some raw, source = None, program = None \<rparr>,
               s\<lparr> counters := leave (enter (counters s) f) \<rparr>))
       \<and> (isSourceId h ident \<and> DTS_EXTENSIONS_test h (getDeclarationId h ident)
            \<and> transformPlugin_transform h (Some raw) (getDeclarationId h ident) \<noteq> None \<longrightarrow>
            transform h s raw ident =
              (\<lparr> completion =
                   Return (transformPlugin_transform h (Some raw) (getDeclarationId h ident)),
                 addWatchFile = [], console_error = [] \<rparr>,
               s\<lparr> counters := leave (enter (counters s) (getDeclarationId h ident)) \<rparr>))"
proof (intro conjI impI)
  assume "DTS_EXTENSIONS_test h f"
  with assms show "getModule h s f raw =
              (Some \<lparr> code = Some raw, source = None, program = None \<rparr>,
               s\<lparr> counters := leave (enter (counters s) f) \<rparr>)"
    by (rule getModule_zero)
next
  assume a: "isSourceId h ident \<and> DTS_EXTENSIONS_test h (getDeclarationId h ident)
            \<and> transformPlugin_transform h (Some raw) (getDeclarationId h ident) \<noteq> None"
  then have g: "getModule h s (getDeclarationId h ident) raw =
              (Some \<lparr> code = Some raw, source = None, program = None \<rparr>,
               s\<lparr> counters := leave (enter (counters s) (getDeclarationId h ident)) \<rparr>)"
    using assms by (intro getModule_zero) simp_all
  from a have "isSourceId h ident" by simp
  from transform_source_found [OF this g] a
  show "transform h s raw ident =
              (\<lparr> completion =
                   Return (transformPlugin_transform h (Some raw) (getDeclarationId h ident)),
                 addWatchFile = [], console_error = [] \<rparr>,
               s\<lparr> counters := leave (enter (counters s) (getDeclarationId h ident)) \<rparr>)"
    by (simp add: watchFiles_def)
qed

text \<open>\<^verbatim>\<open>/p/gone.d.ts\<close> and \<^verbatim>\<open>/p/gone.ts\<close> are not on disk.\<close>

theorem zero_program_path_skips_disk_witness:
  "programs (ctx (demoState [''/p/index.d.ts''] [])) = []
   \<and> DTS_EXTENSIONS_test demoHost ''/p/gone.d.ts''
   \<and> \<not> fileExists demoHost ''/p/gone.d.ts''
   \<and> fst (getModule demoHost (demoState [''/p/index.d.ts''] []) ''/p/gone.d.ts'' ''export const g = 1'') =
       Some \<lparr> code = Some ''export const g = 1'', source = None, program = None \<rparr>
   \<and> isSourceId demoHost ''/p/gone.ts''
   \<and> getDeclarationId demoHost ''/p/gone.ts'' = ''/p/gone.d.ts''
   \<and> fst (transform demoHost (demoState [''/p/index.d.ts''] []) ''export const g = 1'' ''/p/gone.ts'') =
       \<lparr> completion = Return (Some (Some ''export const g = 1'', ''/p/gone.d.ts'')),
         addWatchFile = [], console_error = [] \<rparr>
   \<and> totalGetModuleCalls (counters (snd (transform demoHost (demoState [''/p/index.d.ts''] [])
        ''export const g = 1'' ''/p/gone.ts''))) = 1
   \<and> programs (ctx (snd (transform demoHost (demoState [''/p/index.d.ts''] [])
        ''export const g = 1'' ''/p/gone.ts''))) = []"
proof -
  let ?s = "demoState [''/p/index.d.ts''] []"
  have p: "programs (ctx ?s) = []" by (simp add: demoState_def)
  have c: "totalGetModuleCalls (counters ?s) = 0" by (simp add: demoState_def)
  have d: "DTS_EXTENSIONS_test demoHost ''/p/gone.d.ts''" by (simp add: demoHost_def endsWith_def)
  have ne: "\<not> fileExists demoHost ''/p/gone.d.ts''" by (simp add: demoHost_def)
  have src: "isSourceId demoHost ''/p/gone.ts''" by (simp add: demo_eval)
  have di: "getDeclarationId demoHost ''/p/gone.ts'' = ''/p/gone.d.ts''"
    by (simp add: demoHost_def endsWith_def)
  have b: "\<And>t k. transformPlugin_transform demoHost t k = Some (t, k)"
    by (simp add: demoHost_def)
  note T = zero_program_path_skips_disk [OF p, of demoHost "''/p/gone.d.ts''" "''export const g = 1''"
      "''/p/gone.ts''"]
  from T d have 1: "getModule demoHost ?s ''/p/gone.d.ts'' ''export const g = 1'' =
              (Some \<lparr> code = Some ''export const g = 1'', source = None, program = None \<rparr>,
               ?s\<lparr> counters := leave (enter (counters ?s) ''/p/gone.d.ts'') \<rparr>)"
    by blast
  from T src d b di have 2: "transform demoHost ?s ''export const g = 1'' ''/p/gone.ts'' =
              (\<lparr> completion = Return (Some (Some ''export const g = 1'', ''/p/gone.d.ts'')),
                 addWatchFile = [], console_error = [] \<rparr>,
               ?s\<lparr> counters := leave (enter (counters ?s) ''/p/gone.d.ts'') \<rparr>)"
    by simp
  from p c d ne src di show ?thesis by (simp add: 1 2 leave_enter)
qed

end
